theory Spec2Isabelle
  imports Complex_Main "HOL-Library.Multiset"
begin

section \<open>Data model (types.ts)\<close>

text \<open>
  A calendar day \<^verbatim>\<open>"YYYY-MM-DD"\<close> is represented by its day number, the number of whole days
  since 1970-01-01.  \<^verbatim>\<open>new Date(str).getTime()\<close> of such a string is the UTC midnight of that
  day in milliseconds, and \<^verbatim>\<open>new Date(t).toISOString().split('T')[0]\<close> is the day that
  contains the instant \<open>t\<close>.  JavaScript numbers are modelled by \<open>int\<close> where the program
  only adds, compares and floors whole values (unit counts, times, lags, ages), and by \<open>real\<close>
  where it divides (rates, cumulative fractions, forecasts); rounding of doubles and the
  values \<^verbatim>\<open>NaN\<close> and \<^verbatim>\<open>Infinity\<close> are outside the model.
\<close>

type_synonym date = int

definition MS_PER_DAY :: int where
  "MS_PER_DAY = 1000 * 60 * 60 * 24"

definition getTime :: "date \<Rightarrow> int" where
  "getTime d = d * MS_PER_DAY"

definition dateStr :: "int \<Rightarrow> date" where
  "dateStr t = t div MS_PER_DAY"

record RawOrderRow =
  order_id :: string
  purchase_date :: date
  return_date :: "date option"
  units_sold :: int
  units_returned :: "int option"
  asin :: string
  fasin :: "string option"

text \<open>Of \<^verbatim>\<open>AppData\<close> only the three fields read by the two engines are kept.\<close>

record AppData =
  return_order :: "RawOrderRow list option"
  t0Date :: "date option"
  comparisonSpan :: "int option"

section \<open>Fairness contrast engine (contrastAnalyzer)\<close>

record ContrastMetrics =
  cm_sales :: int
  cm_returns :: int
  cm_rate :: real

record DailyContrastRow =
  date :: date
  matchedDate :: date
  ageLimit :: int
  sales :: int
  returns :: int
  refSales :: int
  refReturns :: int

record VelocityPoint =
  day :: int
  beforeRate :: real
  afterRate :: real

record ContrastResult =
  hasData :: bool
  t0 :: date
  s :: date
  runDays :: int
  before :: ContrastMetrics
  after :: ContrastMetrics
  deltaRate :: real
  isImproved :: bool
  velocityChart :: "VelocityPoint list"
  dailyBreakdown :: "DailyContrastRow list"

text \<open>\<^verbatim>\<open>let maxTime = 0; orders.forEach(o => { if (t > maxTime) maxTime = t })\<close>\<close>

definition maxTimeOf :: "RawOrderRow list \<Rightarrow> int" where
  "maxTimeOf orders =
     foldl (\<lambda>maxTime ord. let t = getTime (purchase_date ord) in if t > maxTime then t else maxTime)
       0 orders"

text \<open>
  The effective return count.  Both modules define it with the same body:
  \<^verbatim>\<open>(o.units_returned && o.units_returned > 0) ? o.units_returned : (o.return_date ? o.units_sold : 0)\<close>.
\<close>

definition getReturnCount :: "RawOrderRow \<Rightarrow> int" where
  "getReturnCount ord =
     (case units_returned ord of
        Some u \<Rightarrow> if u \<noteq> 0 \<and> u > 0 then u
                  else (case return_date ord of Some r \<Rightarrow> units_sold ord | None \<Rightarrow> 0)
      | None \<Rightarrow> (case return_date ord of Some r \<Rightarrow> units_sold ord | None \<Rightarrow> 0))"

definition getLag :: "RawOrderRow \<Rightarrow> int option" where
  "getLag ord =
     (case return_date ord of
        None \<Rightarrow> None
      | Some rd \<Rightarrow> Some ((getTime rd - getTime (purchase_date ord)) div MS_PER_DAY))"

text \<open>The body of \<^verbatim>\<open>afterOrders.forEach\<close>: day sales, day returns and the velocity array.\<close>

definition afterStep :: "int \<Rightarrow> int \<times> int \<times> int list \<Rightarrow> RawOrderRow \<Rightarrow> int \<times> int \<times> int list" where
  "afterStep daysCount acc ord =
     (case acc of (dayASales, dayAReturns, vel) \<Rightarrow>
        let dayASales' = dayASales + units_sold ord;
            rCount = getReturnCount ord
        in if rCount > 0 then
             (dayASales', dayAReturns + rCount,
              (case getLag ord of
                 Some lag \<Rightarrow>
                   if lag \<ge> 0 \<and> lag < daysCount
                   then vel[nat lag := vel ! nat lag + rCount] else vel
               | None \<Rightarrow> vel))
           else (dayASales', dayAReturns, vel))"

text \<open>The body of \<^verbatim>\<open>beforeOrders.forEach\<close>, with the censoring test on the order's own lag.\<close>

definition beforeStep ::
  "int \<Rightarrow> int \<Rightarrow> int \<times> int \<times> int list \<Rightarrow> RawOrderRow \<Rightarrow> int \<times> int \<times> int list" where
  "beforeStep daysCount ageLimitDays acc ord =
     (case acc of (dayBSales, dayBReturns, vel) \<Rightarrow>
        let dayBSales' = dayBSales + units_sold ord;
            rCount = getReturnCount ord
        in if rCount > 0 then
             (case getLag ord of
                Some lag \<Rightarrow>
                  if lag \<le> ageLimitDays then
                    (dayBSales', dayBReturns + rCount,
                     if lag \<ge> 0 \<and> lag < daysCount
                     then vel[nat lag := vel ! nat lag + rCount] else vel)
                  else (dayBSales', dayBReturns, vel)
              | None \<Rightarrow> (dayBSales', dayBReturns, vel))
           else (dayBSales', dayBReturns, vel))"

record ContrastState =
  afterTotalSales :: int
  afterTotalReturns :: int
  beforeTotalSales :: int
  beforeTotalReturns :: int
  dailyRows :: "DailyContrastRow list"
  afterVelocity :: "int list"
  beforeVelocity :: "int list"

text \<open>One iteration \<open>i\<close> of the day-by-day loop.\<close>

definition dayStep ::
  "RawOrderRow list \<Rightarrow> int \<Rightarrow> int \<Rightarrow> int \<Rightarrow> int \<Rightarrow> ContrastState \<Rightarrow> nat \<Rightarrow> ContrastState" where
  "dayStep orders maxTime afterStart beforeStart daysCount st i =
     (let currentAfterTime = afterStart + int i * MS_PER_DAY;
          currentAfterDateStr = dateStr currentAfterTime;
          ageLimitMs = maxTime - currentAfterTime;
          ageLimitDays = ageLimitMs div MS_PER_DAY;
          afterOrders = filter (\<lambda>ord. purchase_date ord = currentAfterDateStr) orders;
          a = foldl (afterStep daysCount) (0, 0, afterVelocity st) afterOrders;
          currentBeforeTime = beforeStart + int i * MS_PER_DAY;
          currentBeforeDateStr = dateStr currentBeforeTime;
          beforeOrders = filter (\<lambda>ord. purchase_date ord = currentBeforeDateStr) orders;
          b = foldl (beforeStep daysCount ageLimitDays) (0, 0, beforeVelocity st) beforeOrders
      in (case a of (dayASales, dayAReturns, velA) \<Rightarrow>
          case b of (dayBSales, dayBReturns, velB) \<Rightarrow>
            \<lparr> afterTotalSales = afterTotalSales st + dayASales,
              afterTotalReturns = afterTotalReturns st + dayAReturns,
              beforeTotalSales = beforeTotalSales st + dayBSales,
              beforeTotalReturns = beforeTotalReturns st + dayBReturns,
              dailyRows = dailyRows st @
                [\<lparr> date = currentAfterDateStr, matchedDate = currentBeforeDateStr,
                   ageLimit = ageLimitDays, sales = dayASales, returns = dayAReturns,
                   refSales = dayBSales, refReturns = dayBReturns \<rparr>],
              afterVelocity = velA,
              beforeVelocity = velB \<rparr>))"

definition initState :: "int \<Rightarrow> ContrastState" where
  "initState daysCount =
     \<lparr> afterTotalSales = 0, afterTotalReturns = 0, beforeTotalSales = 0, beforeTotalReturns = 0,
       dailyRows = [], afterVelocity = replicate (nat daysCount) 0,
       beforeVelocity = replicate (nat daysCount) 0 \<rparr>"

definition contrastLoop :: "RawOrderRow list \<Rightarrow> int \<Rightarrow> int \<Rightarrow> int \<Rightarrow> int \<Rightarrow> ContrastState" where
  "contrastLoop orders maxTime afterStart beforeStart daysCount =
     foldl (dayStep orders maxTime afterStart beforeStart daysCount)
       (initState daysCount) [0 ..< nat daysCount]"

text \<open>The velocity loop: running sums of both arrays, one chart point per day offset.\<close>

definition velocityStep ::
  "ContrastState \<Rightarrow> int \<times> int \<times> VelocityPoint list \<Rightarrow> nat \<Rightarrow> int \<times> int \<times> VelocityPoint list" where
  "velocityStep st acc d =
     (case acc of (cumA, cumB, chart) \<Rightarrow>
        let cumA' = cumA + afterVelocity st ! d;
            cumB' = cumB + beforeVelocity st ! d
        in (cumA', cumB',
            chart @
            [\<lparr> day = int d,
               beforeRate = (if beforeTotalSales st > 0
                             then real_of_int cumB' / real_of_int (beforeTotalSales st) else 0),
               afterRate = (if afterTotalSales st > 0
                            then real_of_int cumA' / real_of_int (afterTotalSales st) else 0) \<rparr>]))"

definition buildVelocityChart :: "ContrastState \<Rightarrow> int \<Rightarrow> VelocityPoint list" where
  "buildVelocityChart st daysCount =
     snd (snd (foldl (velocityStep st) (0, 0, []) [0 ..< nat daysCount]))"

text \<open>
  \<^verbatim>\<open>null\<close> is \<open>None\<close>.  The final \<^verbatim>\<open>dailyRows.sort\<close> orders the rows by descending date; it is
  a stable sort, as is \<open>sort_key\<close>.
\<close>

definition analyzeContrast :: "AppData \<Rightarrow> ContrastResult option" where
  "analyzeContrast data =
     (case return_order data of
        None \<Rightarrow> None
      | Some orders \<Rightarrow>
     (case t0Date data of
        None \<Rightarrow> None
      | Some t0Str \<Rightarrow>
        if length orders = 0 then None
        else
          let t0Time = getTime t0Str;
              maxTime = maxTimeOf orders
          in if maxTime \<le> t0Time then None
             else
               let sStr = dateStr maxTime;
                   afterStart = t0Time + MS_PER_DAY;
                   runDurationMs = maxTime - afterStart;
                   runDaysIndex = runDurationMs div MS_PER_DAY;
                   daysCount = runDaysIndex + 1;
                   beforeStart = t0Time - daysCount * MS_PER_DAY;
                   st = contrastLoop orders maxTime afterStart beforeStart daysCount;
                   beforeRate = (if beforeTotalSales st > 0
                                 then real_of_int (beforeTotalReturns st)
                                      / real_of_int (beforeTotalSales st) else 0);
                   afterRate = (if afterTotalSales st > 0
                                then real_of_int (afterTotalReturns st)
                                     / real_of_int (afterTotalSales st) else 0);
                   deltaRate = (if beforeRate > 0 then (afterRate - beforeRate) / beforeRate
                                else if afterRate > 0 then 1 else 0)
               in Some
                    \<lparr> hasData = True,
                      t0 = t0Str,
                      s = sStr,
                      runDays = daysCount,
                      before = \<lparr> cm_sales = beforeTotalSales st,
                                 cm_returns = beforeTotalReturns st, cm_rate = beforeRate \<rparr>,
                      after = \<lparr> cm_sales = afterTotalSales st,
                                cm_returns = afterTotalReturns st, cm_rate = afterRate \<rparr>,
                      deltaRate = deltaRate,
                      isImproved = (deltaRate < 0),
                      velocityChart = buildVelocityChart st daysCount,
                      dailyBreakdown = sort_key (\<lambda>r. - getTime (date r)) (dailyRows st) \<rparr>))"

subsection \<open>Closed forms used to state the loop's result\<close>

text \<open>
  \<open>counted L ord\<close> is the test under which the before-loop adds an order's return count:
  the count is positive, the order has a lag, and that lag is at most \<open>L\<close>.
  \<open>dayRow\<close> is the audit row of day \<open>i\<close> written with sums in place of the two inner iterations.
\<close>

definition counted :: "int \<Rightarrow> RawOrderRow \<Rightarrow> bool" where
  "counted L ord = (getReturnCount ord > 0 \<and> (case getLag ord of Some lag \<Rightarrow> lag \<le> L | None \<Rightarrow> False))"

definition dayRow :: "RawOrderRow list \<Rightarrow> int \<Rightarrow> int \<Rightarrow> int \<Rightarrow> nat \<Rightarrow> DailyContrastRow" where
  "dayRow orders maxTime afterStart beforeStart i =
     (let aDate = dateStr (afterStart + int i * MS_PER_DAY);
          bDate = dateStr (beforeStart + int i * MS_PER_DAY);
          L = (maxTime - (afterStart + int i * MS_PER_DAY)) div MS_PER_DAY;
          aOrders = filter (\<lambda>ord. purchase_date ord = aDate) orders;
          bOrders = filter (\<lambda>ord. purchase_date ord = bDate) orders
      in \<lparr> date = aDate, matchedDate = bDate, ageLimit = L,
           sales = sum_list (map units_sold aOrders),
           returns = sum_list (map getReturnCount (filter (\<lambda>ord. getReturnCount ord > 0) aOrders)),
           refSales = sum_list (map units_sold bOrders),
           refReturns = sum_list (map getReturnCount (filter (counted L) bOrders)) \<rparr>)"

section \<open>Maturity engine (maturityAnalyzer)\<close>

text \<open>
  Fields whose names the two modules share carry a prefix here (\<open>mm_\<close>, \<open>pb_\<close>, \<open>dp_\<close>, \<open>mr_\<close>),
  and \<open>count\<close>, \<open>id\<close> and \<open>range\<close> are renamed since HOL already uses these names.  Left out, as no
  statement below reads them: the display strings (\<open>fasin\<close>, bucket labels and age ranges), the
  date ranges of \<^verbatim>\<open>getRangeInfo\<close>, the target-date estimator and the daily trend.
\<close>

record LagBucket =
  days :: int
  bucket_count :: int
  cumulativePct :: real

record MaturityMetrics =
  volume :: int
  mm_returns :: int
  mm_rate :: real

datatype Phase = Rampup | Mature | Finalized

datatype Algorithm = LinearBlend | GrossUp | NoAlgorithm

datatype MaturityStatus = Insufficient | Projecting

record ProjectionBucket =
  bucket_id :: string
  pb_volume :: int
  realizedReturns :: int
  forecastedReturns :: real
  totalExpectedReturns :: real
  contributionRate :: real

record DailyProjectionRow =
  dp_date :: date
  age :: int
  phase :: Phase
  dp_sales :: int
  realized :: int
  currentRate :: real
  lagPct :: real
  algorithm :: Algorithm
  weight :: int
  forecastAdd :: real
  projectedTotal :: real
  dp_projectedRate :: real

record ProjectionData =
  projectedRate :: "real option"
  forecastedVolume :: real
  buckets :: "ProjectionBucket list"
  baselineRate :: real

record MetricsSet =
  pre :: MaturityMetrics
  reference :: MaturityMetrics
  postMature :: MaturityMetrics
  postNominal :: MaturityMetrics

subsection \<open>Lag distribution builder\<close>

text \<open>Orders purchased in \<open>[from, to)\<close>, in input order (the three \<^verbatim>\<open>filter\<close> calls).\<close>

definition purchasedIn :: "int \<Rightarrow> int \<Rightarrow> RawOrderRow list \<Rightarrow> RawOrderRow list" where
  "purchasedIn from to orders =
     filter (\<lambda>ord. let t = getTime (purchase_date ord) in t \<ge> from \<and> t < to) orders"

text \<open>The body of \<^verbatim>\<open>preSubset.forEach\<close>: push the lag once per returned unit.\<close>

definition pushLags :: "int list \<Rightarrow> RawOrderRow \<Rightarrow> int list" where
  "pushLags lags ord =
     (let rCount = getReturnCount ord
      in case return_date ord of
           Some rd \<Rightarrow>
             if rCount > 0 then
               let p = getTime (purchase_date ord);
                   r = getTime rd;
                   diffDays = (r - p) div MS_PER_DAY
               in if diffDays \<ge> 0 then lags @ replicate (nat rCount) diffDays else lags
             else lags
         | None \<Rightarrow> lags)"

definition baselineLags :: "RawOrderRow list \<Rightarrow> int \<Rightarrow> int list" where
  "baselineLags orders t0Time =
     (let preWindowStart = t0Time - 60 * MS_PER_DAY;
          preSubset = purchasedIn preWindowStart t0Time orders
      in sort (foldl pushLags [] preSubset))"

text \<open>
  Step 4 up to the clamps.  \<^verbatim>\<open>Math.floor(n * 0.50)\<close>, \<^verbatim>\<open>Math.floor(n * 0.20)\<close>,
  \<^verbatim>\<open>Math.floor(n * 0.90)\<close> and \<^verbatim>\<open>Math.floor(n * 0.95)\<close> are \<open>n div 2\<close>, \<open>n div 5\<close>,
  \<open>9 * n div 10\<close> and \<open>19 * n div 20\<close> for every array length.  The result is
  \<open>(d_value, p20_value, p90_value)\<close>.
\<close>

definition findMarkers :: "int list \<Rightarrow> int \<times> int \<times> int" where
  "findMarkers lags =
     (if length lags > 0 then
        let p50Index = length lags div 2;
            d_value = lags ! p50Index;
            p20Index = length lags div 5;
            p20_value = max 1 (lags ! p20Index);
            p90Index = length lags * 9 div 10;
            p90_value = max (d_value + 5) (lags ! p90Index)
        in (d_value, p20_value, p90_value)
      else (14, 4, 30))"

definition clampMarkers :: "int \<times> int \<times> int \<Rightarrow> int \<times> int \<times> int" where
  "clampMarkers m =
     (case m of (d0, p20_0, p90_0) \<Rightarrow>
        let d_value = max 5 (min d0 60);
            p20_value = min p20_0 (d_value - 1);
            p20_value' = (if p20_value < 1 then 1 else p20_value);
            p90_value = max (d_value + 1) (min p90_0 90)
        in (d_value, p20_value', p90_value))"

definition histogramStep :: "int list \<Rightarrow> int \<times> LagBucket list \<Rightarrow> int \<Rightarrow> int \<times> LagBucket list" where
  "histogramStep lags acc i =
     (case acc of (cumulative, distn) \<Rightarrow>
        let cnt = int (length (filter (\<lambda>l. l \<ge> i \<and> l < i + 2) lags));
            cumulative' = cumulative + cnt
        in (cumulative',
            distn @ [\<lparr> days = i, bucket_count = cnt,
                      cumulativePct = real_of_int cumulative' / real_of_int (int (length lags)) \<rparr>]))"

definition buildDistribution :: "int list \<Rightarrow> int \<Rightarrow> LagBucket list" where
  "buildDistribution lags p90_value =
     (if length lags > 0 then
        let p95Index = length lags * 19 div 20;
            limitVal = max (lags ! p95Index) (p90_value + 14);
            finalLimit = min limitVal 120
        in snd (foldl (histogramStep lags) (0, [])
                  (map (\<lambda>k. 2 * int k) [0 ..< nat (finalLimit div 2 + 1)]))
      else [])"

subsection \<open>Segment metrics\<close>

definition calcStats :: "RawOrderRow list \<Rightarrow> MaturityMetrics" where
  "calcStats subsetRows =
     (let vol = foldl (\<lambda>acc cur. acc + units_sold cur) 0 subsetRows;
          ret = foldl (\<lambda>acc cur. acc + getReturnCount cur) 0 subsetRows
      in \<lparr> volume = vol, mm_returns = ret,
           mm_rate = (if vol > 0 then real_of_int ret / real_of_int vol else 0) \<rparr>)"

subsection \<open>Cohort bucketizer and gross-up projector\<close>

text \<open>
  The element found in the reversed copy is the last bucket with \<open>days \<le> day\<close>, and
  \<^verbatim>\<open>indexOf\<close> finds that very object, so \<open>bucketIdx\<close> is the largest such index.
\<close>

definition getCumulativePct :: "LagBucket list \<Rightarrow> int \<Rightarrow> real" where
  "getCumulativePct distn dayN =
     (if length distn = 0 then 1
      else case find (\<lambda>k. days (distn ! k) \<le> dayN) (rev [0 ..< length distn]) of
             None \<Rightarrow> 0
           | Some bucketIdx \<Rightarrow>
               let bucket = distn ! bucketIdx
               in if bucketIdx + 1 < length distn then
                    let nextBucket = distn ! (bucketIdx + 1);
                        rangeD = days nextBucket - days bucket;
                        progress = real_of_int (dayN - days bucket) / real_of_int rangeD;
                        pctRange = cumulativePct nextBucket - cumulativePct bucket
                    in cumulativePct bucket + progress * pctRange
                  else cumulativePct bucket)"

record DayStats =
  vol :: int
  ret :: int
  pTime :: int

text \<open>\<^verbatim>\<open>dailyMap\<close> keeps insertion order, which \<^verbatim>\<open>forEach\<close> follows: an association list.\<close>

definition dailyMapStep :: "(date \<times> DayStats) list \<Rightarrow> RawOrderRow \<Rightarrow> (date \<times> DayStats) list" where
  "dailyMapStep m ord =
     (let d = purchase_date ord;
          m' = (if map_of m d = None
                then m @ [(d, \<lparr> vol = 0, ret = 0, pTime = getTime (purchase_date ord) \<rparr>)]
                else m)
      in map (\<lambda>(k, entry).
                if k = d
                then (k, entry\<lparr> vol := vol entry + units_sold ord,
                                ret := ret entry + getReturnCount ord \<rparr>)
                else (k, entry)) m')"

text \<open>
  The block that the finalized and the mature branch both contain:
  \<^verbatim>\<open>if (cumPct > 0.01) { proj = realized / cumPct; forecastAdd = Math.max(0, proj - realized) }\<close>,
  else \<^verbatim>\<open>forecastAdd = 0\<close>.
\<close>

definition grossUp :: "int \<Rightarrow> real \<Rightarrow> real" where
  "grossUp realizedN cumPct =
     (if cumPct > 1 / 100
      then (let proj = real_of_int realizedN / cumPct in max 0 (proj - real_of_int realizedN))
      else 0)"

definition projectDay :: "LagBucket list \<Rightarrow> int \<Rightarrow> int \<Rightarrow> int \<Rightarrow> date \<times> DayStats \<Rightarrow> DailyProjectionRow" where
  "projectDay distn d_value p90_value sTime kv =
     (case kv of (dateK, stats) \<Rightarrow>
        let ageDays = (sTime - pTime stats) div MS_PER_DAY;
            cumPct = getCumulativePct distn ageDays;
            realized = ret stats;
            sales = vol stats;
            r0 = \<lparr> dp_date = dateK, age = ageDays, phase = Rampup, dp_sales = sales,
                   realized = realized,
                   currentRate = (if sales > 0 then real_of_int realized / real_of_int sales else 0),
                   lagPct = cumPct, algorithm = NoAlgorithm, weight = 0, forecastAdd = 0,
                   projectedTotal = real_of_int realized, dp_projectedRate = 0 \<rparr>;
            r1 = (if ageDays > p90_value then
                    r0\<lparr> phase := Finalized, algorithm := GrossUp, weight := 1,
                        forecastAdd := grossUp realized cumPct,
                        projectedTotal := real_of_int realized + grossUp realized cumPct \<rparr>
                  else if ageDays \<ge> d_value then
                    r0\<lparr> phase := Mature, algorithm := GrossUp, weight := 1,
                        forecastAdd := grossUp realized cumPct,
                        projectedTotal := real_of_int realized + grossUp realized cumPct \<rparr>
                  else
                    r0\<lparr> phase := Rampup, algorithm := NoAlgorithm, weight := 0,
                        forecastAdd := 0, projectedTotal := real_of_int realized \<rparr>)
        in r1\<lparr> dp_projectedRate :=
                  (if sales > 0 then projectedTotal r1 / real_of_int sales else 0) \<rparr>)"

record ProjBuckets =
  finalized :: ProjectionBucket
  mature :: ProjectionBucket
  rampup :: ProjectionBucket

definition emptyBucket :: "string \<Rightarrow> ProjectionBucket" where
  "emptyBucket name =
     \<lparr> bucket_id = name, pb_volume = 0, realizedReturns = 0, forecastedReturns = 0,
       totalExpectedReturns = 0, contributionRate = 0 \<rparr>"

definition initBuckets :: ProjBuckets where
  "initBuckets =
     \<lparr> finalized = emptyBucket ''finalized'', mature = emptyBucket ''mature'',
       rampup = emptyBucket ''rampup'' \<rparr>"

definition addToBucket :: "ProjectionBucket \<Rightarrow> DailyProjectionRow \<Rightarrow> ProjectionBucket" where
  "addToBucket b row =
     b\<lparr> pb_volume := pb_volume b + dp_sales row,
        realizedReturns := realizedReturns b + realized row,
        forecastedReturns := forecastedReturns b + forecastAdd row \<rparr>"

text \<open>The body of \<^verbatim>\<open>dailyMap.forEach\<close>: push the row, add it to the bucket of its phase.\<close>

definition projStep ::
  "LagBucket list \<Rightarrow> int \<Rightarrow> int \<Rightarrow> int \<Rightarrow> DailyProjectionRow list \<times> ProjBuckets \<Rightarrow> date \<times> DayStats
     \<Rightarrow> DailyProjectionRow list \<times> ProjBuckets" where
  "projStep distn d_value p90_value sTime acc kv =
     (case acc of (rows, pb) \<Rightarrow>
        let row = projectDay distn d_value p90_value sTime kv
        in (rows @ [row],
            case phase row of
              Finalized \<Rightarrow> pb\<lparr> finalized := addToBucket (finalized pb) row \<rparr>
            | Mature \<Rightarrow> pb\<lparr> mature := addToBucket (mature pb) row \<rparr>
            | Rampup \<Rightarrow> pb\<lparr> rampup := addToBucket (rampup pb) row \<rparr>))"

definition finishBucket :: "int \<Rightarrow> ProjectionBucket \<Rightarrow> ProjectionBucket" where
  "finishBucket grandTotalVolume b =
     b\<lparr> totalExpectedReturns := real_of_int (realizedReturns b) + forecastedReturns b,
        contributionRate :=
          (if grandTotalVolume > 0
           then (real_of_int (realizedReturns b) + forecastedReturns b) / real_of_int grandTotalVolume
           else 0) \<rparr>"

record MaturityAnalysisResult =
  mr_t0 :: date
  mr_s :: date
  d_value :: int
  p20_value :: int
  p90_value :: int
  maturityStatus :: MaturityStatus
  confidenceScore :: real
  isEvaluable :: bool
  distribution :: "LagBucket list"
  metrics :: MetricsSet
  projection :: ProjectionData
  dailyProjections :: "DailyProjectionRow list"

text \<open>
  The part of \<^verbatim>\<open>analyzeMaturity\<close> from \<^verbatim>\<open>dailyProjections.sort\<close> to the returned object:
  the roll-up of the three phase buckets, the projected rate, the confidence score and the
  status.  \<open>proj\<close> is the pair of the rows pushed and the buckets filled by the cohort loop.
\<close>

definition consolidate ::
  "date \<Rightarrow> date \<Rightarrow> int \<times> int \<times> int \<Rightarrow> LagBucket list \<Rightarrow> MetricsSet \<Rightarrow> real
     \<Rightarrow> DailyProjectionRow list \<times> ProjBuckets \<Rightarrow> MaturityAnalysisResult" where
  "consolidate t0Str sStr markers distn segMetrics baseRate proj =
     (let dailyProjections = sort_key (\<lambda>r. - age r) (fst proj);
          projBuckets = snd proj;
          allBuckets = [finalized projBuckets, mature projBuckets, rampup projBuckets];
          grandTotalVolume = foldl (\<lambda>g b. g + pb_volume b) 0 allBuckets;
          reliableBuckets = [finalized projBuckets, mature projBuckets];
          reliableVolume = foldl (\<lambda>g b. g + pb_volume b) 0 reliableBuckets;
          reliableRealized = foldl (\<lambda>g b. g + realizedReturns b) 0 reliableBuckets;
          reliableForecasted = foldl (\<lambda>g b. g + forecastedReturns b) 0 reliableBuckets;
          projectedTotalReturns = real_of_int reliableRealized + reliableForecasted;
          projectedRate = (if reliableVolume > 0
                           then Some (projectedTotalReturns / real_of_int reliableVolume)
                           else None);
          confidenceScore = (if grandTotalVolume > 0
                             then real_of_int reliableVolume / real_of_int grandTotalVolume
                             else 0);
          maturityStatus = (if confidenceScore \<ge> 1 / 2 then Projecting else Insufficient);
          isEvaluable = (confidenceScore \<ge> 1 / 2)
      in \<lparr> mr_t0 = t0Str,
           mr_s = sStr,
           d_value = fst markers,
           p20_value = fst (snd markers),
           p90_value = snd (snd markers),
           maturityStatus = maturityStatus,
           confidenceScore = confidenceScore,
           isEvaluable = isEvaluable,
           distribution = distn,
           metrics = segMetrics,
           projection = \<lparr> projectedRate = projectedRate,
                          forecastedVolume = reliableForecasted,
                          buckets = map (finishBucket grandTotalVolume) allBuckets,
                          baselineRate = baseRate \<rparr>,
           dailyProjections = dailyProjections \<rparr>)"

text \<open>\<^verbatim>\<open>data.comparisonSpan || 30\<close>\<close>

definition spanOf :: "AppData \<Rightarrow> int" where
  "spanOf data = (case comparisonSpan data of None \<Rightarrow> 30 | Some n \<Rightarrow> if n = 0 then 30 else n)"

text \<open>The cohort days of the forecast window \<open>[t0Time, t0Time + span)\<close>, as \<^verbatim>\<open>dailyMap\<close> holds them.\<close>

definition dailyMapOf :: "RawOrderRow list \<Rightarrow> int \<Rightarrow> int \<Rightarrow> (date \<times> DayStats) list" where
  "dailyMapOf orders t0Time comparisonSpanDays =
     (let postEnd = t0Time + comparisonSpanDays * MS_PER_DAY;
          projectionSubset = purchasedIn t0Time postEnd orders
      in foldl dailyMapStep [] projectionSubset)"

definition analyzeMaturity :: "AppData \<Rightarrow> MaturityAnalysisResult option" where
  "analyzeMaturity data =
     (case return_order data of
        None \<Rightarrow> None
      | Some orders \<Rightarrow>
     (case t0Date data of
        None \<Rightarrow> None
      | Some t0Str \<Rightarrow>
        if length orders = 0 then None
        else
          let t0Time = getTime t0Str;
              comparisonSpanDays = spanOf data;
              maxTime = maxTimeOf orders;
              sStr = dateStr maxTime;
              sTime = maxTime;
              preWindowStart = t0Time - 60 * MS_PER_DAY;
              preSubset = purchasedIn preWindowStart t0Time orders;
              lags = baselineLags orders t0Time;
              markers = clampMarkers (findMarkers lags);
              distn = buildDistribution lags (snd (snd markers));
              refStart = t0Time - comparisonSpanDays * MS_PER_DAY;
              refSubset = purchasedIn refStart t0Time orders;
              postEnd = t0Time + comparisonSpanDays * MS_PER_DAY;
              projectionSubset = purchasedIn t0Time postEnd orders;
              postNominalSubset = projectionSubset;
              baselineRate = mm_rate (calcStats preSubset);
              dailyMap = dailyMapOf orders t0Time comparisonSpanDays;
              proj = foldl (projStep distn (fst markers) (snd (snd markers)) sTime)
                       ([], initBuckets) dailyMap
          in Some (consolidate t0Str sStr markers distn
                     \<lparr> pre = calcStats preSubset, reference = calcStats refSubset,
                       postMature = calcStats projectionSubset,
                       postNominal = calcStats postNominalSubset \<rparr>
                     baselineRate proj)))"

subsection \<open>Closed forms used to state the roll-up and the velocity chart\<close>

text \<open>
  \<open>phaseSum f ph rows\<close> adds \<open>f\<close> over the rows of phase \<open>ph\<close>; \<open>velocityPoint st d\<close> is the
  chart point of day offset \<open>d\<close> written with the running sums \<open>take (d + 1)\<close> of both arrays.
\<close>

definition phaseSum :: "(DailyProjectionRow \<Rightarrow> 'a::comm_monoid_add) \<Rightarrow> Phase \<Rightarrow> DailyProjectionRow list \<Rightarrow> 'a" where
  "phaseSum f ph rows = sum_list (map f (filter (\<lambda>r. phase r = ph) rows))"

definition velocityPoint :: "ContrastState \<Rightarrow> nat \<Rightarrow> VelocityPoint" where
  "velocityPoint st d =
     \<lparr> day = int d,
       beforeRate = (if beforeTotalSales st > 0
                     then real_of_int (sum_list (take (Suc d) (beforeVelocity st)))
                          / real_of_int (beforeTotalSales st) else 0),
       afterRate = (if afterTotalSales st > 0
                    then real_of_int (sum_list (take (Suc d) (afterVelocity st)))
                         / real_of_int (afterTotalSales st) else 0) \<rparr>"

subsection \<open>The markers as the specification words them\<close>

text \<open>
  Steps 4 to 6 of the specification for a non-empty sample, read literally: the P50 inside the
  P90 formula is the P50 of step 4, already clamped.  These three definitions follow the
  specification, not the program; they are compared with \<open>clampMarkers (findMarkers smp)\<close>.
\<close>

definition spec_P50 :: "int list \<Rightarrow> int" where
  "spec_P50 smp = max 5 (min (smp ! (length smp div 2)) 60)"

definition spec_P20 :: "int list \<Rightarrow> int" where
  "spec_P20 smp = max 1 (min (max 1 (smp ! (length smp div 5))) (spec_P50 smp - 1))"

definition spec_P90 :: "int list \<Rightarrow> int" where
  "spec_P90 smp = max (spec_P50 smp + 1) (min (max (spec_P50 smp + 5) (smp ! (length smp * 9 div 10))) 90)"


section \<open>Concrete inputs\<close>

definition orderRow :: "date \<Rightarrow> date option \<Rightarrow> int \<Rightarrow> int option \<Rightarrow> RawOrderRow" where
  "orderRow p r us ur =
     \<lparr> order_id = [], purchase_date = p, return_date = r, units_sold = us, units_returned = ur,
       asin = [], fasin = None \<rparr>"

definition contrastDemo :: AppData where
  "contrastDemo =
     \<lparr> return_order = Some [orderRow 8 (Some 9) 5 (Some 2), orderRow 9 (Some 20) 4 None,
          orderRow 11 (Some 12) 3 (Some 1), orderRow 12 None 6 None, orderRow 9 (Some 10) 2 (Some 0)],
       t0Date = Some 10, comparisonSpan = None \<rparr>"

text \<open>Scenario 4 of the specification: cutoff 2024-03-01 (day 19783), latest purchase that same day.\<close>

definition scenario4 :: AppData where
  "scenario4 =
     \<lparr> return_order = Some [orderRow 19783 None 1 None], t0Date = Some 19783,
       comparisonSpan = None \<rparr>"

text \<open>
  A baseline window with the lag sample of scenario 1, \<open>[2, 2, 5, 5, 5, 8, 10, 12, 20]\<close>, and
  a forecast window with a finalized, a mature and two ramp-up cohort days.
\<close>

definition maturityDemo :: AppData where
  "maturityDemo =
     \<lparr> return_order = Some
         [orderRow 60 (Some 62) 4 (Some 2),
          orderRow 70 (Some 75) 3 (Some 0),
          orderRow 80 (Some 88) 5 (Some 1),
          orderRow 85 (Some 95) 2 (Some 1),
          orderRow 88 (Some 100) 1 None,
          orderRow 79 (Some 99) 6 (Some 1),
          orderRow 90 None 10 None,
          orderRow 100 (Some 104) 20 (Some 2),
          orderRow 100 None 30 None,
          orderRow 110 (Some 113) 40 (Some 4),
          orderRow 123 None 25 None,
          orderRow 125 (Some 125) 5 (Some 1)],
       t0Date = Some 100, comparisonSpan = None \<rparr>"

text \<open>No return in the baseline window.\<close>

definition emptyBaselineDemo :: AppData where
  "emptyBaselineDemo =
     \<lparr> return_order = Some [orderRow 100 (Some 104) 20 (Some 2), orderRow 70 None 20 None],
       t0Date = Some 100, comparisonSpan = None \<rparr>"

text \<open>Baseline lags \<open>[1, 2, 3]\<close>: a median below the lower clamp of P50.\<close>

definition shortLagDemo :: AppData where
  "shortLagDemo =
     \<lparr> return_order = Some
         [orderRow 90 (Some 91) 1 None, orderRow 91 (Some 93) 1 None, orderRow 92 (Some 95) 1 None,
          orderRow 101 None 1 None],
       t0Date = Some 100, comparisonSpan = None \<rparr>"


section \<open>Dates\<close>

lemma dateStr_getTime: "dateStr (getTime d) = d"
  by (simp add: dateStr_def getTime_def MS_PER_DAY_def)

lemma getTime_add_day: "getTime d + int i * MS_PER_DAY = getTime (d + int i)"
  by (simp add: getTime_def algebra_simps)

lemma maxTimeOf_dvd_aux:
  "MS_PER_DAY dvd m \<Longrightarrow> MS_PER_DAY dvd foldl (\<lambda>maxTime ord. let t = getTime (purchase_date ord) in if t > maxTime then t else maxTime) m orders"
  by (induction orders arbitrary: m) (simp_all add: Let_def getTime_def)

lemma maxTimeOf_getTime: "getTime (dateStr (maxTimeOf orders)) = maxTimeOf orders"
  using maxTimeOf_dvd_aux[of 0 orders] by (simp add: maxTimeOf_def getTime_def dateStr_def)

section \<open>The contrast loop in closed form\<close>

lemma afterStep_fold_sales:
  "fst (foldl (afterStep n) (a, b, v) os) = a + sum_list (map units_sold os)"
  by (induction os arbitrary: a b v) (simp_all add: afterStep_def Let_def)

lemma afterStep_fold_returns:
  "fst (snd (foldl (afterStep n) (a, b, v) os)) =
     b + sum_list (map getReturnCount (filter (\<lambda>ord. getReturnCount ord > 0) os))"
  by (induction os arbitrary: a b v) (simp_all add: afterStep_def Let_def)

lemma beforeStep_fold_sales:
  "fst (foldl (beforeStep n L) (a, b, v) os) = a + sum_list (map units_sold os)"
  by (induction os arbitrary: a b v) (simp_all add: beforeStep_def Let_def split: option.splits)

lemma beforeStep_fold_returns:
  "fst (snd (foldl (beforeStep n L) (a, b, v) os)) =
     b + sum_list (map getReturnCount (filter (counted L) os))"
  by (induction os arbitrary: a b v) (simp_all add: beforeStep_def counted_def Let_def split: option.splits)

lemma dayStep_fields:
  "dailyRows (dayStep orders mT aS bS n st i) = dailyRows st @ [dayRow orders mT aS bS i]"
  "afterTotalSales (dayStep orders mT aS bS n st i) = afterTotalSales st + sales (dayRow orders mT aS bS i)"
  "afterTotalReturns (dayStep orders mT aS bS n st i) = afterTotalReturns st + returns (dayRow orders mT aS bS i)"
  "beforeTotalSales (dayStep orders mT aS bS n st i) = beforeTotalSales st + refSales (dayRow orders mT aS bS i)"
  "beforeTotalReturns (dayStep orders mT aS bS n st i) = beforeTotalReturns st + refReturns (dayRow orders mT aS bS i)"
proof -
  let ?aO = "filter (\<lambda>ord. purchase_date ord = dateStr (aS + int i * MS_PER_DAY)) orders"
  let ?bO = "filter (\<lambda>ord. purchase_date ord = dateStr (bS + int i * MS_PER_DAY)) orders"
  let ?L = "(mT - (aS + int i * MS_PER_DAY)) div MS_PER_DAY"
  obtain a1 a2 a3 where a: "foldl (afterStep n) (0, 0, afterVelocity st) ?aO = (a1, a2, a3)"
    by (cases "foldl (afterStep n) (0, 0, afterVelocity st) ?aO") auto
  obtain b1 b2 b3 where b: "foldl (beforeStep n ?L) (0, 0, beforeVelocity st) ?bO = (b1, b2, b3)"
    by (cases "foldl (beforeStep n ?L) (0, 0, beforeVelocity st) ?bO") auto
  have a1: "a1 = sum_list (map units_sold ?aO)"
    using afterStep_fold_sales[of n 0 0 "afterVelocity st" ?aO] a by simp
  have a2: "a2 = sum_list (map getReturnCount (filter (\<lambda>ord. getReturnCount ord > 0) ?aO))"
    using afterStep_fold_returns[of n 0 0 "afterVelocity st" ?aO] a by simp
  have b1: "b1 = sum_list (map units_sold ?bO)"
    using beforeStep_fold_sales[of n ?L 0 0 "beforeVelocity st" ?bO] b by simp
  have b2: "b2 = sum_list (map getReturnCount (filter (counted ?L) ?bO))"
    using beforeStep_fold_returns[of n ?L 0 0 "beforeVelocity st" ?bO] b by simp
  show "dailyRows (dayStep orders mT aS bS n st i) = dailyRows st @ [dayRow orders mT aS bS i]"
    using a b a1 a2 b1 b2 by (simp add: dayStep_def dayRow_def Let_def)
  show "afterTotalSales (dayStep orders mT aS bS n st i) = afterTotalSales st + sales (dayRow orders mT aS bS i)"
    using a b a1 a2 b1 b2 by (simp add: dayStep_def dayRow_def Let_def)
  show "afterTotalReturns (dayStep orders mT aS bS n st i) = afterTotalReturns st + returns (dayRow orders mT aS bS i)"
    using a b a1 a2 b1 b2 by (simp add: dayStep_def dayRow_def Let_def)
  show "beforeTotalSales (dayStep orders mT aS bS n st i) = beforeTotalSales st + refSales (dayRow orders mT aS bS i)"
    using a b a1 a2 b1 b2 by (simp add: dayStep_def dayRow_def Let_def)
  show "beforeTotalReturns (dayStep orders mT aS bS n st i) = beforeTotalReturns st + refReturns (dayRow orders mT aS bS i)"
    using a b a1 a2 b1 b2 by (simp add: dayStep_def dayRow_def Let_def)
qed

lemma dayLoop_fields:
  "dailyRows (foldl (dayStep orders mT aS bS n) st is) = dailyRows st @ map (dayRow orders mT aS bS) is"
  "afterTotalSales (foldl (dayStep orders mT aS bS n) st is) = afterTotalSales st + sum_list (map (\<lambda>i. sales (dayRow orders mT aS bS i)) is)"
  "afterTotalReturns (foldl (dayStep orders mT aS bS n) st is) = afterTotalReturns st + sum_list (map (\<lambda>i. returns (dayRow orders mT aS bS i)) is)"
  "beforeTotalSales (foldl (dayStep orders mT aS bS n) st is) = beforeTotalSales st + sum_list (map (\<lambda>i. refSales (dayRow orders mT aS bS i)) is)"
  "beforeTotalReturns (foldl (dayStep orders mT aS bS n) st is) = beforeTotalReturns st + sum_list (map (\<lambda>i. refReturns (dayRow orders mT aS bS i)) is)"
  by (induction "is" arbitrary: st; simp add: dayStep_fields)+

lemma contrastLoop_fields:
  "dailyRows (contrastLoop orders mT aS bS n) = map (dayRow orders mT aS bS) [0 ..< nat n]"
  "afterTotalSales (contrastLoop orders mT aS bS n) = sum_list (map sales (dailyRows (contrastLoop orders mT aS bS n)))"
  "afterTotalReturns (contrastLoop orders mT aS bS n) = sum_list (map returns (dailyRows (contrastLoop orders mT aS bS n)))"
  "beforeTotalSales (contrastLoop orders mT aS bS n) = sum_list (map refSales (dailyRows (contrastLoop orders mT aS bS n)))"
  "beforeTotalReturns (contrastLoop orders mT aS bS n) = sum_list (map refReturns (dailyRows (contrastLoop orders mT aS bS n)))"
  by (simp_all add: contrastLoop_def dayLoop_fields initState_def comp_def)

lemma sum_list_sort_key:
  fixes f :: "'a \<Rightarrow> 'b::comm_monoid_add" and k :: "'a \<Rightarrow> 'c::linorder"
  shows "sum_list (map f (sort_key k xs)) = sum_list (map f xs)"
proof -
  have "sum_mset (mset (map f (sort_key k xs))) = sum_mset (mset (map f xs))" by simp
  then show ?thesis by (simp only: sum_mset_sum_list)
qed

lemma daysCount_nonneg:
  assumes "t0Time < maxTime"
  shows "0 \<le> (maxTime - (t0Time + MS_PER_DAY)) div MS_PER_DAY + 1"
proof -
  have "- MS_PER_DAY \<le> maxTime - (t0Time + MS_PER_DAY)" using assms by simp
  then have "- MS_PER_DAY div MS_PER_DAY \<le> (maxTime - (t0Time + MS_PER_DAY)) div MS_PER_DAY"
    by (rule zdiv_mono1) (simp add: MS_PER_DAY_def)
  then show ?thesis by (simp add: MS_PER_DAY_def)
qed

lemma dateStr_after: "dateStr (getTime d + MS_PER_DAY + int i * MS_PER_DAY) = d + 1 + int i"
  by (simp add: dateStr_def getTime_def MS_PER_DAY_def)

lemma dateStr_before: "dateStr (getTime d - n * MS_PER_DAY + int i * MS_PER_DAY) = d - n + int i"
proof -
  have "getTime d - n * MS_PER_DAY + int i * MS_PER_DAY = (d - n + int i) * MS_PER_DAY"
    by (simp add: getTime_def algebra_simps)
  then show ?thesis by (simp add: dateStr_def MS_PER_DAY_def)
qed

lemma dayRow_fields:
  "date (dayRow orders mT aS bS i) = dateStr (aS + int i * MS_PER_DAY)"
  "matchedDate (dayRow orders mT aS bS i) = dateStr (bS + int i * MS_PER_DAY)"
  "ageLimit (dayRow orders mT aS bS i) = (mT - (aS + int i * MS_PER_DAY)) div MS_PER_DAY"
  "refReturns (dayRow orders mT aS bS i) =
     sum_list (map getReturnCount
       (filter (\<lambda>ord. purchase_date ord = dateStr (bS + int i * MS_PER_DAY) \<and> 0 < getReturnCount ord \<and>
                  (case getLag ord of Some lag \<Rightarrow> lag \<le> (mT - (aS + int i * MS_PER_DAY)) div MS_PER_DAY
                   | None \<Rightarrow> False)) orders))"
  by (simp_all add: dayRow_def Let_def counted_def)

section \<open>The maturity engine in closed form\<close>

lemma projectDay_fields:
  "dp_date (projectDay D d p sT (k, e)) = k"
  "age (projectDay D d p sT (k, e)) = (sT - pTime e) div MS_PER_DAY"
  "dp_sales (projectDay D d p sT (k, e)) = vol e"
  "realized (projectDay D d p sT (k, e)) = ret e"
  "lagPct (projectDay D d p sT (k, e)) = getCumulativePct D ((sT - pTime e) div MS_PER_DAY)"
  by (simp_all add: projectDay_def Let_def)

lemma projectDay_phase:
  "phase (projectDay D d p sT kv) =
     (if age (projectDay D d p sT kv) > p then Finalized
      else if age (projectDay D d p sT kv) \<ge> d then Mature else Rampup)"
  by (cases kv) (simp add: projectDay_def Let_def)

lemma projectDay_forecast:
  "forecastAdd (projectDay D d p sT kv) =
     (if phase (projectDay D d p sT kv) = Rampup then 0
      else grossUp (realized (projectDay D d p sT kv)) (lagPct (projectDay D d p sT kv)))"
  "projectedTotal (projectDay D d p sT kv) =
     real_of_int (realized (projectDay D d p sT kv)) + forecastAdd (projectDay D d p sT kv)"
  by (cases kv; simp add: projectDay_def Let_def)+

lemma projectDay_rates:
  "currentRate (projectDay D d p sT kv) =
     (if dp_sales (projectDay D d p sT kv) > 0
      then real_of_int (realized (projectDay D d p sT kv))
           / real_of_int (dp_sales (projectDay D d p sT kv)) else 0)"
  "dp_projectedRate (projectDay D d p sT kv) =
     (if dp_sales (projectDay D d p sT kv) > 0
      then projectedTotal (projectDay D d p sT kv)
           / real_of_int (dp_sales (projectDay D d p sT kv)) else 0)"
  by (cases kv; simp add: projectDay_def Let_def)+

lemma grossUp_nonneg: "0 \<le> grossUp n c"
  by (simp add: grossUp_def Let_def)

lemma grossUp_one: "grossUp n 1 = 0"
  by (simp add: grossUp_def Let_def)

lemma proj_rows:
  "fst (foldl (projStep D d p sT) (rows, pb) m) = rows @ map (projectDay D d p sT) m"
  by (induction m arbitrary: rows pb) (simp_all add: projStep_def Let_def)

lemma phaseSum_simps:
  "phaseSum f ph [] = 0"
  "phaseSum f ph (r # rows) = (if phase r = ph then f r + phaseSum f ph rows else phaseSum f ph rows)"
  by (simp_all add: phaseSum_def)

lemma proj_buckets_volume:
  "pb_volume (finalized (snd (foldl (projStep D d p sT) (rows, pb) m))) =
     pb_volume (finalized pb) + phaseSum dp_sales Finalized (map (projectDay D d p sT) m)"
  "pb_volume (mature (snd (foldl (projStep D d p sT) (rows, pb) m))) =
     pb_volume (mature pb) + phaseSum dp_sales Mature (map (projectDay D d p sT) m)"
  "pb_volume (rampup (snd (foldl (projStep D d p sT) (rows, pb) m))) =
     pb_volume (rampup pb) + phaseSum dp_sales Rampup (map (projectDay D d p sT) m)"
  by (induction m arbitrary: rows pb;
      simp add: projStep_def Let_def addToBucket_def phaseSum_simps split: Phase.splits)+

lemma proj_buckets_realized:
  "realizedReturns (finalized (snd (foldl (projStep D d p sT) (rows, pb) m))) =
     realizedReturns (finalized pb) + phaseSum realized Finalized (map (projectDay D d p sT) m)"
  "realizedReturns (mature (snd (foldl (projStep D d p sT) (rows, pb) m))) =
     realizedReturns (mature pb) + phaseSum realized Mature (map (projectDay D d p sT) m)"
  "realizedReturns (rampup (snd (foldl (projStep D d p sT) (rows, pb) m))) =
     realizedReturns (rampup pb) + phaseSum realized Rampup (map (projectDay D d p sT) m)"
  by (induction m arbitrary: rows pb;
      simp add: projStep_def Let_def addToBucket_def phaseSum_simps split: Phase.splits)+

lemma proj_buckets_forecast:
  "forecastedReturns (finalized (snd (foldl (projStep D d p sT) (rows, pb) m))) =
     forecastedReturns (finalized pb) + phaseSum forecastAdd Finalized (map (projectDay D d p sT) m)"
  "forecastedReturns (mature (snd (foldl (projStep D d p sT) (rows, pb) m))) =
     forecastedReturns (mature pb) + phaseSum forecastAdd Mature (map (projectDay D d p sT) m)"
  "forecastedReturns (rampup (snd (foldl (projStep D d p sT) (rows, pb) m))) =
     forecastedReturns (rampup pb) + phaseSum forecastAdd Rampup (map (projectDay D d p sT) m)"
  by (induction m arbitrary: rows pb;
      simp add: projStep_def Let_def addToBucket_def phaseSum_simps split: Phase.splits)+

lemma consolidate_fields:
  "d_value (consolidate t0Str sStr markers distn segMetrics baseRate proj) = fst markers"
  "p20_value (consolidate t0Str sStr markers distn segMetrics baseRate proj) = fst (snd markers)"
  "p90_value (consolidate t0Str sStr markers distn segMetrics baseRate proj) = snd (snd markers)"
  "distribution (consolidate t0Str sStr markers distn segMetrics baseRate proj) = distn"
  "metrics (consolidate t0Str sStr markers distn segMetrics baseRate proj) = segMetrics"
  "dailyProjections (consolidate t0Str sStr markers distn segMetrics baseRate proj) =
     sort_key (\<lambda>r. - age r) (fst proj)"
  by (simp_all add: consolidate_def Let_def)

lemma consolidate_rollup:
  fixes pb :: ProjBuckets
  defines "rv \<equiv> pb_volume (finalized pb) + pb_volume (mature pb)"
      and "tv \<equiv> pb_volume (finalized pb) + pb_volume (mature pb) + pb_volume (rampup pb)"
      and "rr \<equiv> realizedReturns (finalized pb) + realizedReturns (mature pb)"
      and "rf \<equiv> forecastedReturns (finalized pb) + forecastedReturns (mature pb)"
  shows "projectedRate (projection (consolidate t0Str sStr markers distn segMetrics baseRate (rows, pb))) =
           (if rv > 0 then Some ((real_of_int rr + rf) / real_of_int rv) else None)"
    and "confidenceScore (consolidate t0Str sStr markers distn segMetrics baseRate (rows, pb)) =
           (if tv > 0 then real_of_int rv / real_of_int tv else 0)"
    and "maturityStatus (consolidate t0Str sStr markers distn segMetrics baseRate (rows, pb)) =
           (if confidenceScore (consolidate t0Str sStr markers distn segMetrics baseRate (rows, pb)) \<ge> 1 / 2
            then Projecting else Insufficient)"
    and "forecastedVolume (projection (consolidate t0Str sStr markers distn segMetrics baseRate (rows, pb))) = rf"
    and "map pb_volume (buckets (projection (consolidate t0Str sStr markers distn segMetrics baseRate (rows, pb)))) =
           [pb_volume (finalized pb), pb_volume (mature pb), pb_volume (rampup pb)]"
  by (simp_all add: consolidate_def Let_def finishBucket_def rv_def tv_def rr_def rf_def)

lemma analyzeMaturity_Some:
  assumes "analyzeMaturity data = Some r"
      and "return_order data = Some orders" and "t0Date data = Some t0Str"
  shows "r = consolidate t0Str (dateStr (maxTimeOf orders))
               (clampMarkers (findMarkers (baselineLags orders (getTime t0Str))))
               (buildDistribution (baselineLags orders (getTime t0Str))
                  (snd (snd (clampMarkers (findMarkers (baselineLags orders (getTime t0Str)))))))
               \<lparr> pre = calcStats (purchasedIn (getTime t0Str - 60 * MS_PER_DAY) (getTime t0Str) orders),
                 reference = calcStats (purchasedIn (getTime t0Str - spanOf data * MS_PER_DAY) (getTime t0Str) orders),
                 postMature = calcStats (purchasedIn (getTime t0Str) (getTime t0Str + spanOf data * MS_PER_DAY) orders),
                 postNominal = calcStats (purchasedIn (getTime t0Str) (getTime t0Str + spanOf data * MS_PER_DAY) orders) \<rparr>
               (mm_rate (calcStats (purchasedIn (getTime t0Str - 60 * MS_PER_DAY) (getTime t0Str) orders)))
               (foldl (projStep
                   (buildDistribution (baselineLags orders (getTime t0Str))
                      (snd (snd (clampMarkers (findMarkers (baselineLags orders (getTime t0Str)))))))
                   (fst (clampMarkers (findMarkers (baselineLags orders (getTime t0Str)))))
                   (snd (snd (clampMarkers (findMarkers (baselineLags orders (getTime t0Str))))))
                   (maxTimeOf orders))
                 ([], initBuckets) (dailyMapOf orders (getTime t0Str) (spanOf data)))"
  using assms by (simp add: analyzeMaturity_def Let_def split: if_splits)

lemma analyzeMaturity_SomeD:
  assumes "analyzeMaturity data = Some r"
  shows "\<exists>orders t0Str. return_order data = Some orders \<and> t0Date data = Some t0Str"
  using assms by (auto simp: analyzeMaturity_def split: option.splits)

lemma analyzeMaturity_markers:
  assumes "analyzeMaturity data = Some r"
      and "return_order data = Some orders" and "t0Date data = Some t0Str"
  shows "(d_value r, p20_value r, p90_value r) =
           clampMarkers (findMarkers (baselineLags orders (getTime t0Str)))"
    and "distribution r = buildDistribution (baselineLags orders (getTime t0Str)) (p90_value r)"
    and "dailyProjections r =
           sort_key (\<lambda>r. - age r)
             (map (projectDay (distribution r) (d_value r) (p90_value r) (maxTimeOf orders))
                (dailyMapOf orders (getTime t0Str) (spanOf data)))"
  by (simp_all add: analyzeMaturity_Some[OF assms] consolidate_fields proj_rows)

lemma initBuckets_zero:
  "pb_volume (finalized initBuckets) = 0" "pb_volume (mature initBuckets) = 0"
  "pb_volume (rampup initBuckets) = 0"
  "realizedReturns (finalized initBuckets) = 0" "realizedReturns (mature initBuckets) = 0"
  "realizedReturns (rampup initBuckets) = 0"
  "forecastedReturns (finalized initBuckets) = 0" "forecastedReturns (mature initBuckets) = 0"
  "forecastedReturns (rampup initBuckets) = 0"
  by (simp_all add: initBuckets_def emptyBucket_def)

lemma sum_list_filter_sort_key:
  fixes f :: "'a \<Rightarrow> 'b::comm_monoid_add" and k :: "'a \<Rightarrow> 'c::linorder"
  shows "sum_list (map f (filter P (sort_key k xs))) = sum_list (map f (filter P xs))"
proof -
  have "sum_mset (mset (map f (filter P (sort_key k xs)))) = sum_mset (mset (map f (filter P xs)))"
    by simp
  then show ?thesis by (simp only: sum_mset_sum_list)
qed

lemma phaseSum_sort_key: "phaseSum f ph (sort_key k rows) = phaseSum f ph rows"
  by (simp add: phaseSum_def sum_list_filter_sort_key)

lemma sum_not_rampup:
  "sum_list (map f (filter (\<lambda>row. phase row \<noteq> Rampup) rows)) =
     phaseSum f Finalized rows + phaseSum f Mature rows"
proof (induction rows)
  case Nil
  show ?case by (simp add: phaseSum_simps)
next
  case (Cons r rows)
  then show ?case by (cases "phase r") (simp_all add: phaseSum_simps add.assoc add.left_commute)
qed

lemma sum_all_phases:
  "sum_list (map f rows) =
     phaseSum f Finalized rows + phaseSum f Mature rows + phaseSum f Rampup rows"
proof (induction rows)
  case Nil
  show ?case by (simp add: phaseSum_simps)
next
  case (Cons r rows)
  then show ?case by (cases "phase r") (simp_all add: phaseSum_simps add.assoc add.left_commute)
qed

lemma analyzeMaturity_rollup:
  assumes "analyzeMaturity data = Some r"
  defines "rv \<equiv> sum_list (map dp_sales (filter (\<lambda>row. phase row \<noteq> Rampup) (dailyProjections r)))"
      and "rr \<equiv> sum_list (map realized (filter (\<lambda>row. phase row \<noteq> Rampup) (dailyProjections r)))"
      and "rf \<equiv> sum_list (map forecastAdd (filter (\<lambda>row. phase row \<noteq> Rampup) (dailyProjections r)))"
      and "tv \<equiv> sum_list (map dp_sales (dailyProjections r))"
  shows "projectedRate (projection r) =
           (if rv > 0 then Some ((real_of_int rr + rf) / real_of_int rv) else None)"
    and "confidenceScore r = (if tv > 0 then real_of_int rv / real_of_int tv else 0)"
    and "maturityStatus r = (if confidenceScore r \<ge> 1 / 2 then Projecting else Insufficient)"
    and "forecastedVolume (projection r) = rf"
    and "map pb_volume (buckets (projection r)) =
           [phaseSum dp_sales Finalized (dailyProjections r),
            phaseSum dp_sales Mature (dailyProjections r),
            phaseSum dp_sales Rampup (dailyProjections r)]"
proof -
  obtain orders t0Str where o: "return_order data = Some orders" and t: "t0Date data = Some t0Str"
    using analyzeMaturity_SomeD[OF assms(1)] by blast
  define M where "M = clampMarkers (findMarkers (baselineLags orders (getTime t0Str)))"
  define D where "D = buildDistribution (baselineLags orders (getTime t0Str)) (snd (snd M))"
  let ?d = "fst M" and ?p = "snd (snd M)"
  let ?m = "dailyMapOf orders (getTime t0Str) (spanOf data)"
  let ?rows = "map (projectDay D ?d ?p (maxTimeOf orders)) ?m"
  obtain rows pb where pr: "foldl (projStep D ?d ?p (maxTimeOf orders)) ([], initBuckets) ?m = (rows, pb)"
    by (cases "foldl (projStep D ?d ?p (maxTimeOf orders)) ([], initBuckets) ?m") auto
  obtain s0 met br where r: "r = consolidate t0Str s0 M D met br (rows, pb)"
    using analyzeMaturity_Some[OF assms(1) o t] unfolding M_def[symmetric] D_def[symmetric] pr
    by blast
  have "rows = ?rows"
    using proj_rows[of D ?d ?p "maxTimeOf orders" "[]" initBuckets ?m] by (simp add: pr)
  then have dp: "dailyProjections r = sort_key (\<lambda>r. - age r) ?rows"
    by (simp add: r consolidate_fields)
  have v: "pb_volume (finalized pb) = phaseSum dp_sales Finalized ?rows"
          "pb_volume (mature pb) = phaseSum dp_sales Mature ?rows"
          "pb_volume (rampup pb) = phaseSum dp_sales Rampup ?rows"
    using proj_buckets_volume[of D ?d ?p "maxTimeOf orders" "[]" initBuckets ?m]
    by (simp_all add: pr initBuckets_zero)
  have re: "realizedReturns (finalized pb) = phaseSum realized Finalized ?rows"
           "realizedReturns (mature pb) = phaseSum realized Mature ?rows"
    using proj_buckets_realized[of D ?d ?p "maxTimeOf orders" "[]" initBuckets ?m]
    by (simp_all add: pr initBuckets_zero)
  have fo: "forecastedReturns (finalized pb) = phaseSum forecastAdd Finalized ?rows"
           "forecastedReturns (mature pb) = phaseSum forecastAdd Mature ?rows"
    using proj_buckets_forecast[of D ?d ?p "maxTimeOf orders" "[]" initBuckets ?m]
    by (simp_all add: pr initBuckets_zero)
  have rv: "rv = pb_volume (finalized pb) + pb_volume (mature pb)"
    by (simp add: rv_def sum_not_rampup dp phaseSum_sort_key v)
  have rr: "rr = realizedReturns (finalized pb) + realizedReturns (mature pb)"
    by (simp add: rr_def sum_not_rampup dp phaseSum_sort_key re)
  have rf: "rf = forecastedReturns (finalized pb) + forecastedReturns (mature pb)"
    by (simp add: rf_def sum_not_rampup dp phaseSum_sort_key fo)
  have tv: "tv = pb_volume (finalized pb) + pb_volume (mature pb) + pb_volume (rampup pb)"
    unfolding tv_def by (subst sum_all_phases) (simp add: dp phaseSum_sort_key v)
  show "projectedRate (projection r) =
           (if rv > 0 then Some ((real_of_int rr + rf) / real_of_int rv) else None)"
    by (subst r) (simp only: consolidate_rollup rv rr rf)
  show "confidenceScore r = (if tv > 0 then real_of_int rv / real_of_int tv else 0)"
    by (subst r) (simp only: consolidate_rollup rv tv)
  show "maturityStatus r = (if confidenceScore r \<ge> 1 / 2 then Projecting else Insufficient)"
    by (simp only: r consolidate_rollup(3))
  show "forecastedVolume (projection r) = rf"
    by (subst r) (simp only: consolidate_rollup rf)
  show "map pb_volume (buckets (projection r)) =
           [phaseSum dp_sales Finalized (dailyProjections r),
            phaseSum dp_sales Mature (dailyProjections r),
            phaseSum dp_sales Rampup (dailyProjections r)]"
    by (subst r) (simp only: consolidate_rollup dp phaseSum_sort_key v)
qed

lemma dailyMapStep_inv:
  assumes "\<forall>(k, e) \<in> set m. pTime e = getTime k \<and> k \<in> K" and "purchase_date ord \<in> K"
  shows "\<forall>(k, e) \<in> set (dailyMapStep m ord). pTime e = getTime k \<and> k \<in> K"
  using assms by (auto simp: dailyMapStep_def Let_def split: if_splits)

lemma dailyMap_fold_inv:
  assumes "\<forall>(k, e) \<in> set m. pTime e = getTime k \<and> k \<in> K" and "purchase_date ` set os \<subseteq> K"
  shows "\<forall>(k, e) \<in> set (foldl dailyMapStep m os). pTime e = getTime k \<and> k \<in> K"
  using assms
proof (induction os arbitrary: m)
  case Nil
  then show ?case by simp
next
  case (Cons ord os)
  have "\<forall>(k, e) \<in> set (dailyMapStep m ord). pTime e = getTime k \<and> k \<in> K"
    using Cons.prems by (intro dailyMapStep_inv) auto
  then show ?case using Cons.prems by (simp add: Cons.IH)
qed

lemma dailyMapOf_entries:
  assumes "(k, e) \<in> set (dailyMapOf orders t0Time n)"
  shows "pTime e = getTime k \<and> t0Time \<le> getTime k \<and> getTime k < t0Time + n * MS_PER_DAY"
proof -
  let ?K = "{k. t0Time \<le> getTime k \<and> getTime k < t0Time + n * MS_PER_DAY}"
  have "\<forall>(k, e) \<in> set (foldl dailyMapStep [] (purchasedIn t0Time (t0Time + n * MS_PER_DAY) orders)).
          pTime e = getTime k \<and> k \<in> ?K"
    by (rule dailyMap_fold_inv) (auto simp: purchasedIn_def Let_def)
  then show ?thesis using assms by (auto simp: dailyMapOf_def Let_def)
qed

lemma clampMarkers_eq:
  "clampMarkers (a, b, c) =
     (max 5 (min a 60), max 1 (min b (max 5 (min a 60) - 1)), max (max 5 (min a 60) + 1) (min c 90))"
  by (simp add: clampMarkers_def Let_def) linarith

lemma clampMarkers_bounds:
  assumes "clampMarkers m = (d, p20, p90)"
  shows "5 \<le> d" "d \<le> 60" "1 \<le> p20" "p20 \<le> d - 1" "d + 1 \<le> p90" "p90 \<le> 90"
proof -
  obtain a b c where m: "m = (a, b, c)" by (cases m)
  have d: "d = max 5 (min a 60)" and p20: "p20 = max 1 (min b (d - 1))"
    and p90: "p90 = max (d + 1) (min c 90)"
    using assms unfolding m clampMarkers_eq by auto
  show "5 \<le> d" "d \<le> 60" unfolding d by simp_all
  then show "1 \<le> p20" "p20 \<le> d - 1" "d + 1 \<le> p90" "p90 \<le> 90"
    unfolding p20 p90 by simp_all
qed

lemma analyzeMaturity_bounds:
  assumes "analyzeMaturity data = Some r"
  shows "5 \<le> d_value r" "d_value r \<le> 60" "1 \<le> p20_value r" "p20_value r \<le> d_value r - 1"
        "d_value r + 1 \<le> p90_value r" "p90_value r \<le> 90"
proof -
  obtain orders t0Str where o: "return_order data = Some orders" and t: "t0Date data = Some t0Str"
    using analyzeMaturity_SomeD[OF assms] by blast
  note m = analyzeMaturity_markers(1)[OF assms o t, symmetric]
  show "5 \<le> d_value r" "d_value r \<le> 60" "1 \<le> p20_value r" "p20_value r \<le> d_value r - 1"
        "d_value r + 1 \<le> p90_value r" "p90_value r \<le> 90"
    by (rule clampMarkers_bounds[OF m])+
qed

lemma findMarkers_nonempty:
  "lags \<noteq> [] \<Longrightarrow>
   findMarkers lags =
     (lags ! (length lags div 2), max 1 (lags ! (length lags div 5)),
      max (lags ! (length lags div 2) + 5) (lags ! (length lags * 9 div 10)))"
  by (simp add: findMarkers_def Let_def)

lemma getCumulativePct_empty: "getCumulativePct [] a = 1"
  by (simp add: getCumulativePct_def)

lemma pushLags_mset:
  "mset (foldl pushLags acc os) =
     mset acc +
     sum_list (map (\<lambda>ord.
        case return_date ord of
          None \<Rightarrow> {#}
        | Some rd \<Rightarrow>
            if 0 < getReturnCount ord
               \<and> 0 \<le> (getTime rd - getTime (purchase_date ord)) div MS_PER_DAY
            then replicate_mset (nat (getReturnCount ord))
                   ((getTime rd - getTime (purchase_date ord)) div MS_PER_DAY)
            else {#}) os)"
  by (induction os arbitrary: acc) (simp_all add: pushLags_def Let_def split: option.splits)

lemma sum_list_filter_if:
  fixes f :: "'a \<Rightarrow> 'b::monoid_add"
  shows "sum_list (map f (filter P xs)) = sum_list (map (\<lambda>x. if P x then f x else 0) xs)"
  by (induction xs) simp_all

lemma getReturnCount_cases:
  "getReturnCount ord =
     (if (case units_returned ord of Some u \<Rightarrow> 0 < u | None \<Rightarrow> False) then the (units_returned ord)
      else if return_date ord \<noteq> None then units_sold ord else 0)"
  by (simp add: getReturnCount_def split: option.splits)

lemma afterStep_length:
  "length (snd (snd (foldl (afterStep n) (a, b, v) os))) = length v"
  by (induction os arbitrary: a b v) (simp_all add: afterStep_def Let_def split: option.splits)

lemma beforeStep_length:
  "length (snd (snd (foldl (beforeStep n L) (a, b, v) os))) = length v"
  by (induction os arbitrary: a b v) (simp_all add: beforeStep_def Let_def split: option.splits)

lemma dayStep_length:
  "length (afterVelocity (dayStep orders mT aS bS n st i)) = length (afterVelocity st)"
  "length (beforeVelocity (dayStep orders mT aS bS n st i)) = length (beforeVelocity st)"
proof -
  let ?aO = "filter (\<lambda>ord. purchase_date ord = dateStr (aS + int i * MS_PER_DAY)) orders"
  let ?bO = "filter (\<lambda>ord. purchase_date ord = dateStr (bS + int i * MS_PER_DAY)) orders"
  let ?L = "(mT - (aS + int i * MS_PER_DAY)) div MS_PER_DAY"
  obtain a1 a2 a3 where a: "foldl (afterStep n) (0, 0, afterVelocity st) ?aO = (a1, a2, a3)"
    by (cases "foldl (afterStep n) (0, 0, afterVelocity st) ?aO") auto
  obtain b1 b2 b3 where b: "foldl (beforeStep n ?L) (0, 0, beforeVelocity st) ?bO = (b1, b2, b3)"
    by (cases "foldl (beforeStep n ?L) (0, 0, beforeVelocity st) ?bO") auto
  have a3: "length a3 = length (afterVelocity st)"
    using afterStep_length[of n 0 0 "afterVelocity st" ?aO] a by simp
  have b3: "length b3 = length (beforeVelocity st)"
    using beforeStep_length[of n ?L 0 0 "beforeVelocity st" ?bO] b by simp
  show "length (afterVelocity (dayStep orders mT aS bS n st i)) = length (afterVelocity st)"
    using a b a3 by (simp add: dayStep_def Let_def)
  show "length (beforeVelocity (dayStep orders mT aS bS n st i)) = length (beforeVelocity st)"
    using a b b3 by (simp add: dayStep_def Let_def)
qed

lemma dayLoop_length:
  "length (afterVelocity (foldl (dayStep orders mT aS bS n) st is)) = length (afterVelocity st)"
  "length (beforeVelocity (foldl (dayStep orders mT aS bS n) st is)) = length (beforeVelocity st)"
  by (induction "is" arbitrary: st; simp add: dayStep_length)+

lemma contrastLoop_length:
  "length (afterVelocity (contrastLoop orders mT aS bS n)) = nat n"
  "length (beforeVelocity (contrastLoop orders mT aS bS n)) = nat n"
  by (simp_all add: contrastLoop_def dayLoop_length initState_def)

lemma velocity_fold:
  assumes "n \<le> length (afterVelocity st)" and "n \<le> length (beforeVelocity st)"
  shows "foldl (velocityStep st) (0, 0, []) [0 ..< n] =
           (sum_list (take n (afterVelocity st)), sum_list (take n (beforeVelocity st)),
            map (velocityPoint st) [0 ..< n])"
  using assms
proof (induction n)
  case 0
  show ?case by simp
next
  case (Suc n)
  then have "n < length (afterVelocity st)" "n < length (beforeVelocity st)" by simp_all
  then show ?case
    using Suc by (simp add: velocityStep_def velocityPoint_def Let_def take_Suc_conv_app_nth)
qed

lemma buildVelocityChart_eq:
  "buildVelocityChart (contrastLoop orders mT aS bS n) n =
     map (velocityPoint (contrastLoop orders mT aS bS n)) [0 ..< nat n]"
  by (simp add: buildVelocityChart_def velocity_fold contrastLoop_length)

lemma calcStats_rate:
  "mm_rate (calcStats xs) =
     (if 0 < volume (calcStats xs)
      then real_of_int (mm_returns (calcStats xs)) / real_of_int (volume (calcStats xs)) else 0)"
  by (simp add: calcStats_def Let_def)

lemma analyzeMaturity_metrics:
  assumes "analyzeMaturity data = Some r"
  shows "\<exists>a b c d. pre (metrics r) = calcStats a \<and> reference (metrics r) = calcStats b
           \<and> postMature (metrics r) = calcStats c \<and> postNominal (metrics r) = calcStats d"
proof -
  obtain orders t0Str where o: "return_order data = Some orders" and t: "t0Date data = Some t0Str"
    using analyzeMaturity_SomeD[OF assms] by blast
  show ?thesis
    by (subst (1 2 3 4) analyzeMaturity_Some[OF assms o t]) (simp add: consolidate_fields, blast)
qed

section \<open>The engines run on the concrete inputs\<close>

lemma contrastDemo_result:
  "analyzeContrast contrastDemo = Some
  \<lparr>hasData = True, t0 = 10, s = 12, runDays = 2,
     before = \<lparr>cm_sales = 11, cm_returns = 2, cm_rate = 2 / 11\<rparr>,
     after = \<lparr>cm_sales = 9, cm_returns = 1, cm_rate = 1 / 9\<rparr>,
     deltaRate = - (7 / 18), isImproved = True,
     velocityChart =
       [\<lparr>day = 0, beforeRate = 0, afterRate = 0\<rparr>,
        \<lparr>day = 1, beforeRate = 2 / 11, afterRate = 1 / 9\<rparr>],
     dailyBreakdown =
       [\<lparr>date = 12, matchedDate = 9, ageLimit = 0, sales = 6, returns = 0,
           refSales = 6, refReturns = 0\<rparr>,
        \<lparr>date = 11, matchedDate = 8, ageLimit = 1, sales = 3, returns = 1,
           refSales = 5, refReturns = 2\<rparr>]\<rparr>"
  by code_simp

lemma maturityDemo_result:
  "analyzeMaturity maturityDemo =
  Some
    \<lparr>mr_t0 = 100, mr_s = 125, d_value = 5, p20_value = 2, p90_value = 20,
       maturityStatus = Projecting, confidenceScore = 3 / 4,
       isEvaluable = True,
       distribution =
         [\<lparr>days = 0, bucket_count = 0, cumulativePct = 0\<rparr>,
          \<lparr>days = 2, bucket_count = 2, cumulativePct = 2 / 9\<rparr>,
          \<lparr>days = 4, bucket_count = 3, cumulativePct = 5 / 9\<rparr>,
          \<lparr>days = 6, bucket_count = 0, cumulativePct = 5 / 9\<rparr>,
          \<lparr>days = 8, bucket_count = 1, cumulativePct = 2 / 3\<rparr>,
          \<lparr>days = 10, bucket_count = 1, cumulativePct = 7 / 9\<rparr>,
          \<lparr>days = 12, bucket_count = 1, cumulativePct = 8 / 9\<rparr>,
          \<lparr>days = 14, bucket_count = 0, cumulativePct = 8 / 9\<rparr>,
          \<lparr>days = 16, bucket_count = 0, cumulativePct = 8 / 9\<rparr>,
          \<lparr>days = 18, bucket_count = 0, cumulativePct = 8 / 9\<rparr>,
          \<lparr>days = 20, bucket_count = 1, cumulativePct = 1\<rparr>,
          \<lparr>days = 22, bucket_count = 0, cumulativePct = 1\<rparr>,
          \<lparr>days = 24, bucket_count = 0, cumulativePct = 1\<rparr>,
          \<lparr>days = 26, bucket_count = 0, cumulativePct = 1\<rparr>,
          \<lparr>days = 28, bucket_count = 0, cumulativePct = 1\<rparr>,
          \<lparr>days = 30, bucket_count = 0, cumulativePct = 1\<rparr>,
          \<lparr>days = 32, bucket_count = 0, cumulativePct = 1\<rparr>,
          \<lparr>days = 34, bucket_count = 0, cumulativePct = 1\<rparr>],
       metrics =
         \<lparr>pre = \<lparr>volume = 31, mm_returns = 9, mm_rate = 9 / 31\<rparr>,
            reference = \<lparr>volume = 27, mm_returns = 7, mm_rate = 7 / 27\<rparr>,
            postMature = \<lparr>volume = 120, mm_returns = 7, mm_rate = 7 / 120\<rparr>,
            postNominal = \<lparr>volume = 120, mm_returns = 7, mm_rate = 7 / 120\<rparr>\<rparr>,
       projection =
         \<lparr>projectedRate = Some (13 / 180), forecastedVolume = 1 / 2,
            buckets =
              [\<lparr>bucket_id = ''finalized'', pb_volume = 50,
                  realizedReturns = 2, forecastedReturns = 0,
                  totalExpectedReturns = 2, contributionRate = 1 / 60\<rparr>,
               \<lparr>bucket_id = ''mature'', pb_volume = 40, realizedReturns = 4,
                  forecastedReturns = 1 / 2, totalExpectedReturns = 9 / 2,
                  contributionRate = 3 / 80\<rparr>,
               \<lparr>bucket_id = ''rampup'', pb_volume = 30, realizedReturns = 1,
                  forecastedReturns = 0, totalExpectedReturns = 1,
                  contributionRate = 1 / 120\<rparr>],
            baselineRate = 9 / 31\<rparr>,
       dailyProjections =
         [\<lparr>dp_date = 100, age = 25, phase = Finalized, dp_sales = 50,
             realized = 2, currentRate = 1 / 25, lagPct = 1,
             algorithm = GrossUp, weight = 1, forecastAdd = 0,
             projectedTotal = 2, dp_projectedRate = 1 / 25\<rparr>,
          \<lparr>dp_date = 110, age = 15, phase = Mature, dp_sales = 40,
             realized = 4, currentRate = 1 / 10, lagPct = 8 / 9,
             algorithm = GrossUp, weight = 1, forecastAdd = 1 / 2,
             projectedTotal = 9 / 2, dp_projectedRate = 9 / 80\<rparr>,
          \<lparr>dp_date = 123, age = 2, phase = Rampup, dp_sales = 25,
             realized = 0, currentRate = 0, lagPct = 2 / 9,
             algorithm = NoAlgorithm, weight = 0, forecastAdd = 0,
             projectedTotal = 0, dp_projectedRate = 0\<rparr>,
          \<lparr>dp_date = 125, age = 0, phase = Rampup, dp_sales = 5, realized = 1,
             currentRate = 1 / 5, lagPct = 0, algorithm = NoAlgorithm,
             weight = 0, forecastAdd = 0, projectedTotal = 1,
             dp_projectedRate = 1 / 5\<rparr>]\<rparr>"
  by code_simp

lemma emptyBaselineDemo_result:
  "analyzeMaturity emptyBaselineDemo =
  Some
    \<lparr>mr_t0 = 100, mr_s = 100, d_value = 14, p20_value = 4, p90_value = 30,
       maturityStatus = Insufficient, confidenceScore = 0,
       isEvaluable = False, distribution = [],
       metrics =
         \<lparr>pre = \<lparr>volume = 20, mm_returns = 0, mm_rate = 0\<rparr>,
            reference = \<lparr>volume = 20, mm_returns = 0, mm_rate = 0\<rparr>,
            postMature = \<lparr>volume = 20, mm_returns = 2, mm_rate = 1 / 10\<rparr>,
            postNominal = \<lparr>volume = 20, mm_returns = 2, mm_rate = 1 / 10\<rparr>\<rparr>,
       projection =
         \<lparr>projectedRate = None, forecastedVolume = 0,
            buckets =
              [\<lparr>bucket_id = ''finalized'', pb_volume = 0, realizedReturns = 0,
                  forecastedReturns = 0, totalExpectedReturns = 0,
                  contributionRate = 0\<rparr>,
               \<lparr>bucket_id = ''mature'', pb_volume = 0, realizedReturns = 0,
                  forecastedReturns = 0, totalExpectedReturns = 0,
                  contributionRate = 0\<rparr>,
               \<lparr>bucket_id = ''rampup'', pb_volume = 20, realizedReturns = 2,
                  forecastedReturns = 0, totalExpectedReturns = 2,
                  contributionRate = 1 / 10\<rparr>],
            baselineRate = 0\<rparr>,
       dailyProjections =
         [\<lparr>dp_date = 100, age = 0, phase = Rampup, dp_sales = 20,
             realized = 2, currentRate = 1 / 10, lagPct = 1,
             algorithm = NoAlgorithm, weight = 0, forecastAdd = 0,
             projectedTotal = 2, dp_projectedRate = 1 / 10\<rparr>]\<rparr>"
  by code_simp

lemma maturityDemo_fields:
  "return_order maturityDemo = Some (the (return_order maturityDemo))"
  "t0Date maturityDemo = Some 100"
  by (simp_all add: maturityDemo_def)

lemma maturityDemo_lags:
  "[2, 2, 5, 5, 5, 8, 10, 12, 20] = baselineLags (the (return_order maturityDemo)) (getTime 100)"
  by code_simp

lemma emptyBaselineDemo_fields:
  "return_order emptyBaselineDemo = Some (the (return_order emptyBaselineDemo))"
  "t0Date emptyBaselineDemo = Some 100"
  by (simp_all add: emptyBaselineDemo_def)

lemma emptyBaselineDemo_lags:
  "baselineLags (the (return_order emptyBaselineDemo)) (getTime 100) = []"
  by code_simp

lemma maturityDemo_contrast:
  "map_option (\<lambda>r. (runDays r, before r, after r, length (velocityChart r)))
     (analyzeContrast maturityDemo) =
   Some (25, \<lparr>cm_sales = 24, cm_returns = 3, cm_rate = 1 / 8\<rparr>,
         \<lparr>cm_sales = 70, cm_returns = 5, cm_rate = 1 / 14\<rparr>, 25)"
  by code_simp

section \<open>Contrast engine: claims\<close>

text \<open>
  Claim C1, as amended.  When the latest purchase time \<open>S\<close> found by the engine is on or before
  the cutoff, \<open>analyzeContrast\<close> returns \<^verbatim>\<open>null\<close> (the absent result) and raises nothing; it
  never builds a result whose \<open>hasData\<close> field is false: every result it returns has
  \<open>hasData = True\<close>.
\<close>

theorem C1_no_after_window_is_null:
  assumes "return_order data = Some orders" and "t0Date data = Some t0Str"
  shows "(maxTimeOf orders \<le> getTime t0Str \<longrightarrow> analyzeContrast data = None)
       \<and> (\<forall>r. analyzeContrast data = Some r \<longrightarrow> hasData r)"
  using assms by (auto simp: analyzeContrast_def Let_def split: if_splits)

lemma scenario4_fields:
  "return_order scenario4 = Some [orderRow 19783 None 1 None]"
  "t0Date scenario4 = Some 19783"
  "maxTimeOf [orderRow 19783 None 1 None] \<le> getTime 19783"
  by (simp_all add: scenario4_def maxTimeOf_def orderRow_def Let_def getTime_def MS_PER_DAY_def)

theorem C1_no_after_window_is_null_witness:
  "return_order scenario4 = Some [orderRow 19783 None 1 None]
   \<and> t0Date scenario4 = Some 19783
   \<and> maxTimeOf [orderRow 19783 None 1 None] \<le> getTime 19783
   \<and> analyzeContrast scenario4 = None
   \<and> (\<exists>r. analyzeContrast contrastDemo = Some r \<and> hasData r)"
proof -
  have n: "analyzeContrast scenario4 = None"
    using C1_no_after_window_is_null [OF scenario4_fields(1) scenario4_fields(2)]
      scenario4_fields(3)
    by blast
  have f: "return_order contrastDemo = Some (the (return_order contrastDemo))"
    "t0Date contrastDemo = Some 10"
    by (simp_all add: contrastDemo_def)
  note h = C1_no_after_window_is_null [OF f, THEN conjunct2, THEN spec, THEN mp,
             OF contrastDemo_result]
  have e: "\<exists>r. analyzeContrast contrastDemo = Some r \<and> hasData r"
    using contrastDemo_result h by blast
  show ?thesis
    by (rule conjI [OF scenario4_fields(1) conjI [OF scenario4_fields(2)
          conjI [OF scenario4_fields(3) conjI [OF n e]]]])
qed

text \<open>
  Claim C1 as stated fails: for cutoff 2024-03-01 with the latest purchase on 2024-03-01 the
  engine returns no result at all, so there is no \<open>hasData\<close> field to read.
\<close>

theorem C1_scenario4_counterexample:
  "analyzeContrast
     \<lparr> return_order = Some [\<lparr> order_id = [], purchase_date = 19783, return_date = None,
                                units_sold = 1, units_returned = None, asin = [], fasin = None \<rparr>],
       t0Date = Some 19783, comparisonSpan = None \<rparr> = None
   \<and> map_option hasData
       (analyzeContrast
         \<lparr> return_order = Some [\<lparr> order_id = [], purchase_date = 19783, return_date = None,
                                    units_sold = 1, units_returned = None, asin = [], fasin = None \<rparr>],
           t0Date = Some 19783, comparisonSpan = None \<rparr>) \<noteq> Some False"
  by code_simp

text \<open>
  Claim C4.  Every audit row belongs to a day index \<open>i\<close> of the loop, its age limit is
  \<open>floor((S - after-day) / 1 day)\<close>, and its \<open>refReturns\<close> is the sum of the return counts of
  exactly those orders purchased on the mirrored before-day whose own lag is at most that age
  limit; \<open>before.returns\<close> is the sum of the rows' \<open>refReturns\<close>.  So a return whose lag exceeds
  its day's age limit contributes to neither.
\<close>

theorem C4_before_returns_censored:
  assumes "analyzeContrast data = Some r" and "return_order data = Some orders"
  shows "(\<forall>row \<in> set (dailyBreakdown r).
            (\<exists>i < nat (runDays r). date row = t0 r + 1 + int i
                                 \<and> matchedDate row = t0 r - runDays r + int i)
          \<and> ageLimit row = (maxTimeOf orders - getTime (date row)) div MS_PER_DAY
          \<and> refReturns row =
              sum_list (map getReturnCount
                (filter (\<lambda>ord. purchase_date ord = matchedDate row \<and> 0 < getReturnCount ord \<and>
                           (case getLag ord of Some lag \<Rightarrow> lag \<le> ageLimit row | None \<Rightarrow> False))
                   orders)))
       \<and> cm_returns (before r) = sum_list (map refReturns (dailyBreakdown r))"
proof -
  obtain t0Str where t: "t0Date data = Some t0Str"
    and lt: "getTime t0Str < maxTimeOf orders"
    using assms by (auto simp: analyzeContrast_def Let_def split: option.splits if_splits)
  let ?n = "(maxTimeOf orders - (getTime t0Str + MS_PER_DAY)) div MS_PER_DAY + 1"
  let ?aS = "getTime t0Str + MS_PER_DAY"
  let ?bS = "getTime t0Str - ?n * MS_PER_DAY"
  let ?st = "contrastLoop orders (maxTimeOf orders) ?aS ?bS ?n"
  have rd: "runDays r = ?n" and t0: "t0 r = t0Str"
    and db: "dailyBreakdown r = sort_key (\<lambda>r. - getTime (date r)) (dailyRows ?st)"
    and bf: "cm_returns (before r) = beforeTotalReturns ?st"
    using assms t lt by (auto simp: analyzeContrast_def Let_def split: if_splits)
  have rows: "dailyRows ?st = map (dayRow orders (maxTimeOf orders) ?aS ?bS) [0 ..< nat ?n]"
    by (rule contrastLoop_fields(1))
  have total: "cm_returns (before r) = sum_list (map refReturns (dailyBreakdown r))"
    by (simp only: bf db sum_list_sort_key contrastLoop_fields(5))
  have each: "(\<exists>i < nat (runDays r). date row = t0 r + 1 + int i
                                 \<and> matchedDate row = t0 r - runDays r + int i)
          \<and> ageLimit row = (maxTimeOf orders - getTime (date row)) div MS_PER_DAY
          \<and> refReturns row =
              sum_list (map getReturnCount
                (filter (\<lambda>ord. purchase_date ord = matchedDate row \<and> 0 < getReturnCount ord \<and>
                           (case getLag ord of Some lag \<Rightarrow> lag \<le> ageLimit row | None \<Rightarrow> False))
                   orders))"
    if "row \<in> set (dailyBreakdown r)" for row
  proof -
    from that obtain i where i: "i < nat ?n" and row: "row = dayRow orders (maxTimeOf orders) ?aS ?bS i"
      by (auto simp: db rows)
    have d: "date row = t0Str + 1 + int i"
      by (simp only: row dayRow_fields dateStr_after)
    have m: "matchedDate row = t0Str - ?n + int i"
      by (simp only: row dayRow_fields dateStr_before)
    have g: "getTime (date row) = ?aS + int i * MS_PER_DAY"
      by (simp add: d getTime_def algebra_simps)
    have a: "ageLimit row = (maxTimeOf orders - getTime (date row)) div MS_PER_DAY"
      by (simp only: g) (simp only: row dayRow_fields)
    have rr: "refReturns row =
              sum_list (map getReturnCount
                (filter (\<lambda>ord. purchase_date ord = matchedDate row \<and> 0 < getReturnCount ord \<and>
                           (case getLag ord of Some lag \<Rightarrow> lag \<le> ageLimit row | None \<Rightarrow> False))
                   orders))"
      by (simp only: row dayRow_fields)
    from i d m show ?thesis using a rr by (auto simp: rd t0)
  qed
  from each total show ?thesis by blast
qed

theorem C4_before_returns_censored_witness:
  "\<exists>r. analyzeContrast contrastDemo = Some r
     \<and> (\<forall>row \<in> set (dailyBreakdown r).
            ageLimit row = (maxTimeOf (the (return_order contrastDemo)) - getTime (date row)) div MS_PER_DAY
          \<and> refReturns row =
              sum_list (map getReturnCount
                (filter (\<lambda>ord. purchase_date ord = matchedDate row \<and> 0 < getReturnCount ord \<and>
                           (case getLag ord of Some lag \<Rightarrow> lag \<le> ageLimit row | None \<Rightarrow> False))
                   (the (return_order contrastDemo)))))
     \<and> cm_returns (before r) = sum_list (map refReturns (dailyBreakdown r))"
proof -
  have ro: "return_order contrastDemo = Some (the (return_order contrastDemo))"
    by (simp add: contrastDemo_def)
  show ?thesis
    using C4_before_returns_censored [OF contrastDemo_result ro] contrastDemo_result by blast
qed

text \<open>
  Claim C10.  Whenever \<open>analyzeContrast\<close> returns a result, \<open>dailyBreakdown\<close> has exactly
  \<open>runDays\<close> rows, and the four summary totals are the sums of the corresponding columns of
  those rows.
\<close>

theorem C10_totals_from_breakdown:
  assumes "analyzeContrast data = Some r"
  shows "int (length (dailyBreakdown r)) = runDays r
       \<and> cm_sales (after r) = sum_list (map sales (dailyBreakdown r))
       \<and> cm_returns (after r) = sum_list (map returns (dailyBreakdown r))
       \<and> cm_sales (before r) = sum_list (map refSales (dailyBreakdown r))
       \<and> cm_returns (before r) = sum_list (map refReturns (dailyBreakdown r))"
proof -
  obtain orders t0Str where o: "return_order data = Some orders" and t: "t0Date data = Some t0Str"
    and lt: "getTime t0Str < maxTimeOf orders"
    using assms by (auto simp: analyzeContrast_def Let_def split: option.splits if_splits)
  let ?n = "(maxTimeOf orders - (getTime t0Str + MS_PER_DAY)) div MS_PER_DAY + 1"
  let ?st = "contrastLoop orders (maxTimeOf orders) (getTime t0Str + MS_PER_DAY) (getTime t0Str - ?n * MS_PER_DAY) ?n"
  have n: "0 \<le> ?n" using lt by (rule daysCount_nonneg)
  have rd: "runDays r = ?n" and db: "dailyBreakdown r = sort_key (\<lambda>r. - getTime (date r)) (dailyRows ?st)"
    and bf: "before r = \<lparr> cm_sales = beforeTotalSales ?st, cm_returns = beforeTotalReturns ?st,
               cm_rate = (if beforeTotalSales ?st > 0 then real_of_int (beforeTotalReturns ?st) / real_of_int (beforeTotalSales ?st) else 0) \<rparr>"
    and af: "after r = \<lparr> cm_sales = afterTotalSales ?st, cm_returns = afterTotalReturns ?st,
               cm_rate = (if afterTotalSales ?st > 0 then real_of_int (afterTotalReturns ?st) / real_of_int (afterTotalSales ?st) else 0) \<rparr>"
    using assms o t lt by (auto simp: analyzeContrast_def Let_def split: if_splits)
  have len: "length (dailyRows ?st) = nat ?n" by (simp add: contrastLoop_fields(1))
  show ?thesis
    using n len by (simp add: rd db bf af sum_list_sort_key contrastLoop_fields(2-5)[symmetric])
qed

theorem C10_totals_from_breakdown_witness:
  "\<exists>r. analyzeContrast contrastDemo = Some r
       \<and> int (length (dailyBreakdown r)) = runDays r
       \<and> cm_sales (after r) = sum_list (map sales (dailyBreakdown r))
       \<and> cm_returns (after r) = sum_list (map returns (dailyBreakdown r))
       \<and> cm_sales (before r) = sum_list (map refSales (dailyBreakdown r))
       \<and> cm_returns (before r) = sum_list (map refReturns (dailyBreakdown r))"
  using C10_totals_from_breakdown [OF contrastDemo_result] contrastDemo_result by blast

section \<open>Maturity engine: claims\<close>

text \<open>
  Claim C2, as amended.  For a non-empty baseline sample \<open>lags\<close> (ascending, as
  \<open>baselineLags\<close> returns it): P50 is \<open>lags[floor(n / 2)]\<close> clamped to \<open>[5, 60]\<close>; P20 is
  \<open>max(1, lags[floor(n / 5)])\<close>, lowered to P50 - 1 and raised to 1; P90 is
  \<open>max(lags[floor(n / 2)] + 5, lags[floor(9 n / 10)])\<close> clamped to \<open>[P50 + 1, 90]\<close>, where the
  term inside the \<open>max\<close> is the median sample before its clamp.  The sample of scenario 1 gives
  P50 = 5, P20 = 2, P90 = 20.
\<close>

theorem C2_markers_from_sample:
  assumes "analyzeMaturity data = Some r"
      and "return_order data = Some orders" and "t0Date data = Some t0Str"
      and "lags = baselineLags orders (getTime t0Str)" and "lags \<noteq> []"
  shows "sorted lags
       \<and> d_value r = max 5 (min (lags ! (length lags div 2)) 60)
       \<and> p20_value r = max 1 (min (max 1 (lags ! (length lags div 5))) (d_value r - 1))
       \<and> p90_value r =
           max (d_value r + 1)
             (min (max (lags ! (length lags div 2) + 5) (lags ! (length lags * 9 div 10))) 90)
       \<and> (lags = [2, 2, 5, 5, 5, 8, 10, 12, 20] \<longrightarrow>
            d_value r = 5 \<and> p20_value r = 2 \<and> p90_value r = 20)"
proof -
  have m: "(d_value r, p20_value r, p90_value r) = clampMarkers (findMarkers lags)"
    using analyzeMaturity_markers(1)[OF assms(1-3)] assms(4) by simp
  have so: "sorted lags" by (simp add: assms(4) baselineLags_def Let_def)
  have f: "d_value r = max 5 (min (lags ! (length lags div 2)) 60)"
          "p20_value r = max 1 (min (max 1 (lags ! (length lags div 5))) (d_value r - 1))"
          "p90_value r =
             max (d_value r + 1)
               (min (max (lags ! (length lags div 2) + 5) (lags ! (length lags * 9 div 10))) 90)"
    using m unfolding findMarkers_nonempty[OF assms(5)] clampMarkers_eq by simp_all
  have "d_value r = 5 \<and> p20_value r = 2 \<and> p90_value r = 20"
    if "lags = [2, 2, 5, 5, 5, 8, 10, 12, 20]"
    using f unfolding that by simp
  with so f show ?thesis by blast
qed

theorem C2_markers_from_sample_witness:
  "\<exists>r. analyzeMaturity maturityDemo = Some r
     \<and> baselineLags (the (return_order maturityDemo)) (getTime 100) = [2, 2, 5, 5, 5, 8, 10, 12, 20]
     \<and> d_value r = 5 \<and> p20_value r = 2 \<and> p90_value r = 20"
proof -
  have ne: "[2, 2, 5, 5, 5, 8, 10, 12, 20] \<noteq> ([] :: int list)" by simp
  show ?thesis
    using C2_markers_from_sample [OF maturityDemo_result maturityDemo_fields maturityDemo_lags ne]
      maturityDemo_result maturityDemo_lags
    by simp
qed

text \<open>
  Claim C2 as stated fails: for the baseline sample \<open>[1, 2, 3]\<close> the program returns P90 = 7,
  while the formula with the clamped P50 = 5 inside the \<open>max\<close> gives 10.
\<close>

theorem C2_p90_counterexample:
  "map_option p90_value (analyzeMaturity shortLagDemo) = Some 7
   \<and> baselineLags (the (return_order shortLagDemo)) (getTime (the (t0Date shortLagDemo))) = [1, 2, 3]
   \<and> snd (snd (clampMarkers (findMarkers [1, 2, 3]))) = 7
   \<and> spec_P90 [1, 2, 3] = 10"
  by code_simp

text \<open>
  Claim C3.  Every row of \<open>dailyProjections\<close> is a cohort day of the forecast window
  \<open>[T0, T0 + span)\<close> with \<open>age = floor((S - day) / 1 day)\<close> and its cumulative fraction read
  off the histogram at that age.  Age below P50 is ramp-up, age from P50 to P90 is mature, age
  above P90 is finalized.  A mature or finalized day has
  \<open>forecastAdd = max(0, realized / fraction - realized)\<close> when the fraction exceeds 0.01 and
  \<open>0\<close> otherwise, and \<open>projectedTotal = realized + forecastAdd \<ge> realized\<close>; a ramp-up day has
  \<open>forecastAdd = 0\<close> and \<open>projectedTotal = realized\<close>.
\<close>

theorem C3_phase_gross_up:
  assumes "analyzeMaturity data = Some r"
      and "return_order data = Some orders" and "t0Date data = Some t0Str"
  shows "\<forall>row \<in> set (dailyProjections r).
           getTime t0Str \<le> getTime (dp_date row)
         \<and> getTime (dp_date row) < getTime t0Str + spanOf data * MS_PER_DAY
         \<and> age row = (maxTimeOf orders - getTime (dp_date row)) div MS_PER_DAY
         \<and> lagPct row = getCumulativePct (distribution r) (age row)
         \<and> (age row < d_value r \<longrightarrow> phase row = Rampup)
         \<and> (d_value r \<le> age row \<and> age row \<le> p90_value r \<longrightarrow> phase row = Mature)
         \<and> (p90_value r < age row \<longrightarrow> phase row = Finalized)
         \<and> (phase row = Mature \<or> phase row = Finalized \<longrightarrow>
              forecastAdd row =
                (if lagPct row > 1 / 100
                 then max 0 (real_of_int (realized row) / lagPct row - real_of_int (realized row))
                 else 0)
              \<and> projectedTotal row = real_of_int (realized row) + forecastAdd row
              \<and> projectedTotal row \<ge> real_of_int (realized row))
         \<and> (phase row = Rampup \<longrightarrow>
              forecastAdd row = 0 \<and> projectedTotal row = real_of_int (realized row))"
proof
  fix row assume "row \<in> set (dailyProjections r)"
  then obtain k e where ke: "(k, e) \<in> set (dailyMapOf orders (getTime t0Str) (spanOf data))"
    and row: "row = projectDay (distribution r) (d_value r) (p90_value r) (maxTimeOf orders) (k, e)"
    by (auto simp: analyzeMaturity_markers(3)[OF assms])
  have w: "pTime e = getTime k" "getTime t0Str \<le> getTime k"
          "getTime k < getTime t0Str + spanOf data * MS_PER_DAY"
    using dailyMapOf_entries[OF ke] by simp_all
  have d: "dp_date row = k" and a: "age row = (maxTimeOf orders - getTime k) div MS_PER_DAY"
    and l: "lagPct row = getCumulativePct (distribution r) (age row)"
    by (simp_all add: row projectDay_fields w)
  have ph: "phase row = (if age row > p90_value r then Finalized
                         else if age row \<ge> d_value r then Mature else Rampup)"
    unfolding row by (rule projectDay_phase)
  have fa: "forecastAdd row = (if phase row = Rampup then 0 else grossUp (realized row) (lagPct row))"
    and pt: "projectedTotal row = real_of_int (realized row) + forecastAdd row"
    unfolding row by (rule projectDay_forecast)+
  have g: "grossUp (realized row) (lagPct row) =
             (if lagPct row > 1 / 100
              then max 0 (real_of_int (realized row) / lagPct row - real_of_int (realized row))
              else 0)"
    by (simp add: grossUp_def Let_def)
  have nn: "0 \<le> forecastAdd row"
    by (simp add: fa grossUp_nonneg)
  show "getTime t0Str \<le> getTime (dp_date row)
         \<and> getTime (dp_date row) < getTime t0Str + spanOf data * MS_PER_DAY
         \<and> age row = (maxTimeOf orders - getTime (dp_date row)) div MS_PER_DAY
         \<and> lagPct row = getCumulativePct (distribution r) (age row)
         \<and> (age row < d_value r \<longrightarrow> phase row = Rampup)
         \<and> (d_value r \<le> age row \<and> age row \<le> p90_value r \<longrightarrow> phase row = Mature)
         \<and> (p90_value r < age row \<longrightarrow> phase row = Finalized)
         \<and> (phase row = Mature \<or> phase row = Finalized \<longrightarrow>
              forecastAdd row =
                (if lagPct row > 1 / 100
                 then max 0 (real_of_int (realized row) / lagPct row - real_of_int (realized row))
                 else 0)
              \<and> projectedTotal row = real_of_int (realized row) + forecastAdd row
              \<and> projectedTotal row \<ge> real_of_int (realized row))
         \<and> (phase row = Rampup \<longrightarrow>
              forecastAdd row = 0 \<and> projectedTotal row = real_of_int (realized row))"
    using w(2,3) a l ph fa[unfolded g] pt nn analyzeMaturity_bounds(5)[OF assms(1)] unfolding d
    by (auto split: if_splits)
qed

theorem C3_phase_gross_up_witness:
  "\<exists>r. analyzeMaturity maturityDemo = Some r
     \<and> map phase (dailyProjections r) = [Finalized, Mature, Rampup, Rampup]
     \<and> (\<forall>row \<in> set (dailyProjections r).
           getTime 100 \<le> getTime (dp_date row)
         \<and> getTime (dp_date row) < getTime 100 + spanOf maturityDemo * MS_PER_DAY
         \<and> age row = (maxTimeOf (the (return_order maturityDemo)) - getTime (dp_date row)) div MS_PER_DAY
         \<and> lagPct row = getCumulativePct (distribution r) (age row)
         \<and> (age row < d_value r \<longrightarrow> phase row = Rampup)
         \<and> (d_value r \<le> age row \<and> age row \<le> p90_value r \<longrightarrow> phase row = Mature)
         \<and> (p90_value r < age row \<longrightarrow> phase row = Finalized)
         \<and> (phase row = Mature \<or> phase row = Finalized \<longrightarrow>
              forecastAdd row =
                (if lagPct row > 1 / 100
                 then max 0 (real_of_int (realized row) / lagPct row - real_of_int (realized row))
                 else 0)
              \<and> projectedTotal row = real_of_int (realized row) + forecastAdd row
              \<and> projectedTotal row \<ge> real_of_int (realized row))
         \<and> (phase row = Rampup \<longrightarrow>
              forecastAdd row = 0 \<and> projectedTotal row = real_of_int (realized row)))"
proof -
  let ?r = "the (analyzeMaturity maturityDemo)"
  have r: "analyzeMaturity maturityDemo = Some ?r" by (simp add: maturityDemo_result)
  have p: "map phase (dailyProjections ?r) = [Finalized, Mature, Rampup, Rampup]"
    by (simp add: maturityDemo_result)
  show ?thesis
    by (rule exI[of _ ?r])
       (rule conjI[OF r conjI[OF p C3_phase_gross_up [OF r maturityDemo_fields]]])
qed

text \<open>
  Claim C5.  With the reliable rows being the mature and finalized cohort days:
  \<open>projectedRate\<close> is (reliable realized + reliable forecast) / reliable volume when that
  volume is positive and \<^verbatim>\<open>null\<close> when it is zero; \<open>confidenceScore\<close> is reliable volume / total
  volume, and \<open>0\<close> when the total volume is zero; \<open>maturityStatus\<close> is \<open>Projecting\<close> exactly when
  \<open>confidenceScore \<ge> 0.5\<close> and \<open>Insufficient\<close> otherwise.
\<close>

theorem C5_projection_rollup:
  fixes r :: MaturityAnalysisResult
  defines "reliable \<equiv> filter (\<lambda>row. phase row = Mature \<or> phase row = Finalized) (dailyProjections r)"
  defines "reliableVolume \<equiv> sum_list (map dp_sales reliable)"
      and "reliableRealized \<equiv> sum_list (map realized reliable)"
      and "reliableForecast \<equiv> sum_list (map forecastAdd reliable)"
      and "totalVolume \<equiv> sum_list (map dp_sales (dailyProjections r))"
  assumes "analyzeMaturity data = Some r"
  shows "(0 < reliableVolume \<longrightarrow>
            projectedRate (projection r) =
              Some ((real_of_int reliableRealized + reliableForecast) / real_of_int reliableVolume))
       \<and> (reliableVolume = 0 \<longrightarrow> projectedRate (projection r) = None)
       \<and> (0 < totalVolume \<longrightarrow>
            confidenceScore r = real_of_int reliableVolume / real_of_int totalVolume)
       \<and> (totalVolume = 0 \<longrightarrow> confidenceScore r = 0)
       \<and> (maturityStatus r = Projecting \<longleftrightarrow> confidenceScore r \<ge> 1 / 2)
       \<and> (maturityStatus r = Insufficient \<longleftrightarrow> \<not> confidenceScore r \<ge> 1 / 2)"
proof -
  have e: "(\<lambda>row. phase row = Mature \<or> phase row = Finalized) = (\<lambda>row. phase row \<noteq> Rampup)"
    by (rule ext) (metis Phase.distinct(1,3) Phase.exhaust)
  note ru = analyzeMaturity_rollup[OF assms(6), folded e,
      folded reliable_def, folded reliableVolume_def reliableRealized_def reliableForecast_def totalVolume_def]
  show ?thesis
    by (simp add: ru(1,2,3))
qed

theorem C5_projection_rollup_witness:
  "\<exists>r. analyzeMaturity maturityDemo = Some r
     \<and> sum_list (map dp_sales
          (filter (\<lambda>row. phase row = Mature \<or> phase row = Finalized) (dailyProjections r))) = 90
     \<and> sum_list (map dp_sales (dailyProjections r)) = 120
     \<and> projectedRate (projection r) = Some (13 / 180)
     \<and> confidenceScore r = 3 / 4
     \<and> maturityStatus r = Projecting"
proof -
  let ?r = "the (analyzeMaturity maturityDemo)"
  have r: "analyzeMaturity maturityDemo = Some ?r" by (simp add: maturityDemo_result)
  have v: "sum_list (map dp_sales
          (filter (\<lambda>row. phase row = Mature \<or> phase row = Finalized) (dailyProjections ?r))) = 90"
    "sum_list (map dp_sales (dailyProjections ?r)) = 120"
    "sum_list (map realized
          (filter (\<lambda>row. phase row = Mature \<or> phase row = Finalized) (dailyProjections ?r))) = 6"
    "sum_list (map forecastAdd
          (filter (\<lambda>row. phase row = Mature \<or> phase row = Finalized) (dailyProjections ?r))) = 1 / 2"
    by (simp_all add: maturityDemo_result)
  have "projectedRate (projection ?r) = Some (13 / 180) \<and> confidenceScore ?r = 3 / 4
        \<and> maturityStatus ?r = Projecting"
    using C5_projection_rollup [OF r] unfolding v by simp
  with r v show ?thesis by blast
qed

text \<open>
  Claim C6.  When the baseline window yields no lag sample, the markers are the defaults
  P20 = 4, P50 = 14, P90 = 30, the histogram is empty, every cumulative-fraction lookup returns
  \<open>1\<close>, and so every cohort day has \<open>lagPct = 1\<close> and is grossed up by nothing.
\<close>

theorem C6_empty_baseline_defaults:
  assumes "analyzeMaturity data = Some r"
      and "return_order data = Some orders" and "t0Date data = Some t0Str"
      and "baselineLags orders (getTime t0Str) = []"
  shows "p20_value r = 4 \<and> d_value r = 14 \<and> p90_value r = 30
       \<and> distribution r = []
       \<and> (\<forall>a. getCumulativePct (distribution r) a = 1)
       \<and> (\<forall>row \<in> set (dailyProjections r).
            lagPct row = 1 \<and> forecastAdd row = 0
            \<and> projectedTotal row = real_of_int (realized row))"
proof -
  have m: "(d_value r, p20_value r, p90_value r) = (14, 4, 30)"
    using analyzeMaturity_markers(1)[OF assms(1-3)]
    by (simp add: assms(4) findMarkers_def clampMarkers_eq)
  have d: "distribution r = []"
    using analyzeMaturity_markers(2)[OF assms(1-3)]
    by (simp add: assms(4) buildDistribution_def)
  have rows: "lagPct row = 1 \<and> forecastAdd row = 0
            \<and> projectedTotal row = real_of_int (realized row)"
    if "row \<in> set (dailyProjections r)" for row
  proof -
    from that obtain kv where
      row: "row = projectDay [] (d_value r) (p90_value r) (maxTimeOf orders) kv"
      by (auto simp: analyzeMaturity_markers(3)[OF assms(1-3)] d)
    obtain k e where kv: "kv = (k, e)" by (cases kv)
    have l: "lagPct row = 1"
      by (simp add: row kv projectDay_fields getCumulativePct_empty)
    have fa: "forecastAdd row = 0"
      using projectDay_forecast(1)[of "[]" "d_value r" "p90_value r" "maxTimeOf orders" kv]
      by (simp add: row[symmetric] l grossUp_one)
    have pt: "projectedTotal row = real_of_int (realized row)"
      using projectDay_forecast(2)[of "[]" "d_value r" "p90_value r" "maxTimeOf orders" kv]
      by (simp add: row[symmetric] fa)
    from l fa pt show ?thesis by blast
  qed
  from m d rows show ?thesis by (simp add: getCumulativePct_empty)
qed

theorem C6_empty_baseline_defaults_witness:
  "\<exists>r. analyzeMaturity emptyBaselineDemo = Some r
     \<and> baselineLags (the (return_order emptyBaselineDemo)) (getTime 100) = []
     \<and> dailyProjections r \<noteq> []
     \<and> (p20_value r = 4 \<and> d_value r = 14 \<and> p90_value r = 30
       \<and> distribution r = []
       \<and> (\<forall>a. getCumulativePct (distribution r) a = 1)
       \<and> (\<forall>row \<in> set (dailyProjections r).
            lagPct row = 1 \<and> forecastAdd row = 0
            \<and> projectedTotal row = real_of_int (realized row)))"
proof -
  let ?r = "the (analyzeMaturity emptyBaselineDemo)"
  have r: "analyzeMaturity emptyBaselineDemo = Some ?r" by (simp add: emptyBaselineDemo_result)
  have n: "dailyProjections ?r \<noteq> []"
    by (simp add: emptyBaselineDemo_result)
  note c = C6_empty_baseline_defaults [OF r emptyBaselineDemo_fields emptyBaselineDemo_lags]
  show ?thesis
    by (rule exI[of _ ?r]) (rule conjI[OF r conjI[OF emptyBaselineDemo_lags conjI[OF n c]]])
qed

text \<open>
  Claim C7.  The multiset of baseline lag samples is the sum, over the orders, of: the lag
  \<open>floor((return_date - purchase_date) / 1 day)\<close> repeated \<open>c\<close> times when the order is purchased
  in \<open>[T0 - 60 d, T0)\<close>, has a return date, has effective return count \<open>c > 0\<close> and a lag
  \<open>\<ge> 0\<close>; nothing otherwise.  The effective return count is \<open>units_returned\<close> when that is
  positive, else \<open>units_sold\<close> when a return date is present, else \<open>0\<close>.  The order of scenario 3
  contributes the lag 35 three times.
\<close>

theorem C7_lag_sample_multiset:
  "mset (baselineLags orders t0Time) =
     sum_list (map (\<lambda>ord.
        case return_date ord of
          None \<Rightarrow> {#}
        | Some rd \<Rightarrow>
            if t0Time - 60 * MS_PER_DAY \<le> getTime (purchase_date ord)
               \<and> getTime (purchase_date ord) < t0Time
               \<and> 0 < getReturnCount ord
               \<and> 0 \<le> (getTime rd - getTime (purchase_date ord)) div MS_PER_DAY
            then replicate_mset (nat (getReturnCount ord))
                   ((getTime rd - getTime (purchase_date ord)) div MS_PER_DAY)
            else {#}) orders)
   \<and> getReturnCount row =
       (if (case units_returned row of Some u \<Rightarrow> 0 < u | None \<Rightarrow> False)
        then the (units_returned row)
        else if return_date row \<noteq> None then units_sold row else 0)
   \<and> baselineLags
         [\<lparr> order_id = [], purchase_date = 19723, return_date = Some 19758, units_sold = 3,
             units_returned = Some 0, asin = [], fasin = None \<rparr>] (getTime 19763) = [35, 35, 35]"
proof -
  have "mset (baselineLags orders t0Time) =
          mset (foldl pushLags [] (purchasedIn (t0Time - 60 * MS_PER_DAY) t0Time orders))"
    by (simp add: baselineLags_def Let_def)
  also have "\<dots> = sum_list (map (\<lambda>ord.
        case return_date ord of
          None \<Rightarrow> {#}
        | Some rd \<Rightarrow>
            if t0Time - 60 * MS_PER_DAY \<le> getTime (purchase_date ord)
               \<and> getTime (purchase_date ord) < t0Time
               \<and> 0 < getReturnCount ord
               \<and> 0 \<le> (getTime rd - getTime (purchase_date ord)) div MS_PER_DAY
            then replicate_mset (nat (getReturnCount ord))
                   ((getTime rd - getTime (purchase_date ord)) div MS_PER_DAY)
            else {#}) orders)"
    unfolding pushLags_mset purchasedIn_def sum_list_filter_if
    by (auto simp: Let_def intro!: arg_cong[where f = sum_list] split: option.splits)
  finally have a: "mset (baselineLags orders t0Time) = sum_list (map (\<lambda>ord.
        case return_date ord of
          None \<Rightarrow> {#}
        | Some rd \<Rightarrow>
            if t0Time - 60 * MS_PER_DAY \<le> getTime (purchase_date ord)
               \<and> getTime (purchase_date ord) < t0Time
               \<and> 0 < getReturnCount ord
               \<and> 0 \<le> (getTime rd - getTime (purchase_date ord)) div MS_PER_DAY
            then replicate_mset (nat (getReturnCount ord))
                   ((getTime rd - getTime (purchase_date ord)) div MS_PER_DAY)
            else {#}) orders)" .
  have b: "baselineLags
         [\<lparr> order_id = [], purchase_date = 19723, return_date = Some 19758, units_sold = 3,
             units_returned = Some 0, asin = [], fasin = None \<rparr>] (getTime 19763) = [35, 35, 35]"
    by code_simp
  from a b getReturnCount_cases[of row] show ?thesis by blast
qed

theorem C7_lag_sample_multiset_witness:
  "mset (baselineLags (the (return_order maturityDemo)) (getTime 100)) =
     {#2, 2, 5, 5, 5, 8, 10, 12, 20#}"
  using C7_lag_sample_multiset [of "the (return_order maturityDemo)" "getTime 100"]
    maturityDemo_lags [symmetric]
  by simp

text \<open>
  Claim C8.  The markers of every result satisfy \<open>P20 \<le> P50 \<le> P90\<close>, \<open>5 \<le> P50 \<le> 60\<close>,
  \<open>P50 + 1 \<le> P90 \<le> 90\<close> and \<open>P20 \<ge> 1\<close>; this holds for a non-empty baseline sample and for
  the defaults alike.
\<close>

theorem C8_marker_bounds:
  assumes "analyzeMaturity data = Some r"
  shows "p20_value r \<le> d_value r \<and> d_value r \<le> p90_value r
       \<and> 5 \<le> d_value r \<and> d_value r \<le> 60
       \<and> d_value r + 1 \<le> p90_value r \<and> p90_value r \<le> 90
       \<and> 1 \<le> p20_value r"
  using analyzeMaturity_bounds[OF assms] by simp

theorem C8_marker_bounds_witness:
  "\<exists>r. analyzeMaturity maturityDemo = Some r
     \<and> p20_value r \<le> d_value r \<and> d_value r \<le> p90_value r
     \<and> 5 \<le> d_value r \<and> d_value r \<le> 60
     \<and> d_value r + 1 \<le> p90_value r \<and> p90_value r \<le> 90
     \<and> 1 \<le> p20_value r"
  using C8_marker_bounds [OF maturityDemo_result] maturityDemo_result by blast

section \<open>Both engines: rates\<close>

text \<open>
  Claim C9.  Every rate field is \<open>returns / sales\<close> when its sales total is positive and \<open>0\<close>
  otherwise, in particular \<open>0\<close> when the sales total is \<open>0\<close>: \<open>before.rate\<close> and \<open>after.rate\<close>,
  the two rates of each velocity-chart point (numerator: the running sum of the side's velocity
  array up to that day offset), the rate of each of the four segment metrics, and
  \<open>currentRate\<close> and \<open>projectedRate\<close> of each daily row.
\<close>

theorem C9_rates_guarded:
  assumes "return_order data = Some orders" and "t0Date data = Some t0Str"
  shows "(\<forall>r. analyzeContrast data = Some r \<longrightarrow>
            cm_rate (before r) =
              (if 0 < cm_sales (before r)
               then real_of_int (cm_returns (before r)) / real_of_int (cm_sales (before r)) else 0)
          \<and> cm_rate (after r) =
              (if 0 < cm_sales (after r)
               then real_of_int (cm_returns (after r)) / real_of_int (cm_sales (after r)) else 0)
          \<and> (\<forall>v \<in> set (velocityChart r).
                beforeRate v =
                  (if 0 < cm_sales (before r)
                   then real_of_int (sum_list (take (nat (day v) + 1)
                          (beforeVelocity (contrastLoop orders (maxTimeOf orders)
                             (getTime t0Str + MS_PER_DAY)
                             (getTime t0Str - runDays r * MS_PER_DAY) (runDays r)))))
                        / real_of_int (cm_sales (before r))
                   else 0)
              \<and> afterRate v =
                  (if 0 < cm_sales (after r)
                   then real_of_int (sum_list (take (nat (day v) + 1)
                          (afterVelocity (contrastLoop orders (maxTimeOf orders)
                             (getTime t0Str + MS_PER_DAY)
                             (getTime t0Str - runDays r * MS_PER_DAY) (runDays r)))))
                        / real_of_int (cm_sales (after r))
                   else 0)))
       \<and> (\<forall>m. analyzeMaturity data = Some m \<longrightarrow>
            (\<forall>x \<in> {pre (metrics m), reference (metrics m), postMature (metrics m),
                     postNominal (metrics m)}.
               mm_rate x =
                 (if 0 < volume x then real_of_int (mm_returns x) / real_of_int (volume x) else 0))
          \<and> (\<forall>row \<in> set (dailyProjections m).
                currentRate row =
                  (if 0 < dp_sales row
                   then real_of_int (realized row) / real_of_int (dp_sales row) else 0)
              \<and> dp_projectedRate row =
                  (if 0 < dp_sales row then projectedTotal row / real_of_int (dp_sales row) else 0)))"
proof -
  have contrast: "cm_rate (before r) =
              (if 0 < cm_sales (before r)
               then real_of_int (cm_returns (before r)) / real_of_int (cm_sales (before r)) else 0)
          \<and> cm_rate (after r) =
              (if 0 < cm_sales (after r)
               then real_of_int (cm_returns (after r)) / real_of_int (cm_sales (after r)) else 0)
          \<and> (\<forall>v \<in> set (velocityChart r).
                beforeRate v =
                  (if 0 < cm_sales (before r)
                   then real_of_int (sum_list (take (nat (day v) + 1)
                          (beforeVelocity (contrastLoop orders (maxTimeOf orders)
                             (getTime t0Str + MS_PER_DAY)
                             (getTime t0Str - runDays r * MS_PER_DAY) (runDays r)))))
                        / real_of_int (cm_sales (before r))
                   else 0)
              \<and> afterRate v =
                  (if 0 < cm_sales (after r)
                   then real_of_int (sum_list (take (nat (day v) + 1)
                          (afterVelocity (contrastLoop orders (maxTimeOf orders)
                             (getTime t0Str + MS_PER_DAY)
                             (getTime t0Str - runDays r * MS_PER_DAY) (runDays r)))))
                        / real_of_int (cm_sales (after r))
                   else 0))"
    if res: "analyzeContrast data = Some r" for r
  proof -
    have lt: "getTime t0Str < maxTimeOf orders"
      using res assms by (auto simp: analyzeContrast_def Let_def split: if_splits)
    let ?n = "(maxTimeOf orders - (getTime t0Str + MS_PER_DAY)) div MS_PER_DAY + 1"
    let ?st = "contrastLoop orders (maxTimeOf orders) (getTime t0Str + MS_PER_DAY)
                 (getTime t0Str - ?n * MS_PER_DAY) ?n"
    have rd: "runDays r = ?n"
      and bf: "before r = \<lparr> cm_sales = beforeTotalSales ?st, cm_returns = beforeTotalReturns ?st,
               cm_rate = (if beforeTotalSales ?st > 0 then real_of_int (beforeTotalReturns ?st) / real_of_int (beforeTotalSales ?st) else 0) \<rparr>"
      and af: "after r = \<lparr> cm_sales = afterTotalSales ?st, cm_returns = afterTotalReturns ?st,
               cm_rate = (if afterTotalSales ?st > 0 then real_of_int (afterTotalReturns ?st) / real_of_int (afterTotalSales ?st) else 0) \<rparr>"
      and vc: "velocityChart r = buildVelocityChart ?st ?n"
      using res assms lt by (auto simp: analyzeContrast_def Let_def split: if_splits)
    have vc': "velocityChart r = map (velocityPoint ?st) [0 ..< nat ?n]"
      unfolding vc by (rule buildVelocityChart_eq)
    show ?thesis
      unfolding rd by (auto simp: bf af vc' velocityPoint_def)
  qed
  have maturity: "(\<forall>x \<in> {pre (metrics m), reference (metrics m), postMature (metrics m),
                     postNominal (metrics m)}.
               mm_rate x =
                 (if 0 < volume x then real_of_int (mm_returns x) / real_of_int (volume x) else 0))
          \<and> (\<forall>row \<in> set (dailyProjections m).
                currentRate row =
                  (if 0 < dp_sales row
                   then real_of_int (realized row) / real_of_int (dp_sales row) else 0)
              \<and> dp_projectedRate row =
                  (if 0 < dp_sales row then projectedTotal row / real_of_int (dp_sales row) else 0))"
    if res: "analyzeMaturity data = Some m" for m
  proof -
    have a: "mm_rate x =
                 (if 0 < volume x then real_of_int (mm_returns x) / real_of_int (volume x) else 0)"
      if "x \<in> {pre (metrics m), reference (metrics m), postMature (metrics m), postNominal (metrics m)}" for x
      using analyzeMaturity_metrics[OF res] that calcStats_rate by auto
    have b: "currentRate row =
                  (if 0 < dp_sales row
                   then real_of_int (realized row) / real_of_int (dp_sales row) else 0)
              \<and> dp_projectedRate row =
                  (if 0 < dp_sales row then projectedTotal row / real_of_int (dp_sales row) else 0)"
      if "row \<in> set (dailyProjections m)" for row
    proof -
      from that obtain kv where
        row: "row = projectDay (distribution m) (d_value m) (p90_value m) (maxTimeOf orders) kv"
        by (auto simp: analyzeMaturity_markers(3)[OF res assms])
      show ?thesis unfolding row
        using projectDay_rates[of "distribution m" "d_value m" "p90_value m" "maxTimeOf orders" kv]
        by blast
    qed
    from a b show ?thesis by blast
  qed
  from contrast maturity show ?thesis by blast
qed

theorem C9_rates_guarded_witness:
  "\<exists>r m. analyzeContrast maturityDemo = Some r
     \<and> analyzeMaturity maturityDemo = Some m
     \<and> (cm_rate (before r) =
              (if 0 < cm_sales (before r)
               then real_of_int (cm_returns (before r)) / real_of_int (cm_sales (before r)) else 0)
          \<and> cm_rate (after r) =
              (if 0 < cm_sales (after r)
               then real_of_int (cm_returns (after r)) / real_of_int (cm_sales (after r)) else 0)
          \<and> (\<forall>v \<in> set (velocityChart r).
                beforeRate v =
                  (if 0 < cm_sales (before r)
                   then real_of_int (sum_list (take (nat (day v) + 1)
                          (beforeVelocity (contrastLoop (the (return_order maturityDemo)) (maxTimeOf (the (return_order maturityDemo)))
                             (getTime 100 + MS_PER_DAY)
                             (getTime 100 - runDays r * MS_PER_DAY) (runDays r)))))
                        / real_of_int (cm_sales (before r))
                   else 0)
              \<and> afterRate v =
                  (if 0 < cm_sales (after r)
                   then real_of_int (sum_list (take (nat (day v) + 1)
                          (afterVelocity (contrastLoop (the (return_order maturityDemo)) (maxTimeOf (the (return_order maturityDemo)))
                             (getTime 100 + MS_PER_DAY)
                             (getTime 100 - runDays r * MS_PER_DAY) (runDays r)))))
                        / real_of_int (cm_sales (after r))
                   else 0)))
     \<and> ((\<forall>x \<in> {pre (metrics m), reference (metrics m), postMature (metrics m),
                     postNominal (metrics m)}.
               mm_rate x =
                 (if 0 < volume x then real_of_int (mm_returns x) / real_of_int (volume x) else 0))
          \<and> (\<forall>row \<in> set (dailyProjections m).
                currentRate row =
                  (if 0 < dp_sales row
                   then real_of_int (realized row) / real_of_int (dp_sales row) else 0)
              \<and> dp_projectedRate row =
                  (if 0 < dp_sales row then projectedTotal row / real_of_int (dp_sales row) else 0)))"
proof -
  let ?r = "the (analyzeContrast maturityDemo)" and ?m = "the (analyzeMaturity maturityDemo)"
  have r: "analyzeContrast maturityDemo = Some ?r"
    using maturityDemo_contrast by (cases "analyzeContrast maturityDemo") auto
  have m: "analyzeMaturity maturityDemo = Some ?m"
    by (simp add: maturityDemo_result)
  note c = C9_rates_guarded [OF maturityDemo_fields]
  note b1 = c [THEN conjunct1, THEN spec, THEN mp, OF r]
  note b2 = c [THEN conjunct2, THEN spec, THEN mp, OF m]
  show ?thesis
    by (rule exI[of _ ?r], rule exI[of _ ?m]) (rule conjI[OF r conjI[OF m conjI[OF b1 b2]]])
qed

end
